theory Spec2Isabelle
  imports Main "HOL-Library.Word"
begin

section \<open>Common types\<close>

text \<open>
  The three Solidity contracts (UserRegistry, Reputation, P2PLending) are embedded as
  functions on explicit contract states. A transaction either returns the new state
  (\<open>Inr\<close>) or reverts (\<open>Inl\<close>); a reverted transaction leaves the state it started from.

  \<^item> \<open>address\<close> is a 160-bit word, \<open>0\<close> is \<open>address(0)\<close>.
  \<^item> \<open>uint256\<close>, \<open>uint16\<close> and timestamps are natural numbers; Solidity 0.8 reverts
    with a panic when an arithmetic result leaves the type, and every such check is
    written out (\<open>Inl Panic\<close>).
  \<^item> \<open>int256\<close> is \<open>int\<close>, with the same range check.
  \<^item> \<open>require(c, msg)\<close> is \<open>if \<not> c then Inl (Revert msg) else \<dots>\<close>, in source order.
  \<^item> Events are not part of the state and are left out.
\<close>

type_synonym address = "160 word"

datatype error = Revert string | Panic

type_synonym 'a result = "error + 'a"

definition MAX_UINT256 :: nat where
  "MAX_UINT256 = 2 ^ 256 - 1"

definition MIN_INT256 :: int where
  "MIN_INT256 = - (2 ^ 255)"

definition MAX_INT256 :: int where
  "MAX_INT256 = 2 ^ 255 - 1"

text \<open>
  \<open>keccak256(abi.encodePacked(\<dots>))\<close> is modelled as a free constructor of its
  preimage: two identifiers are equal exactly when their preimages are (the
  collision-free idealisation). Offer and request identifiers hash a tuple of the same
  shape (account, amount, token, rate, duration, timestamp, counter); agreement
  identifiers hash (origin id, counterparty, start time).
\<close>

datatype bytes32 =
    Zero32
  | Keccak7 address nat address nat nat nat nat
  | Keccak3 bytes32 address nat

section \<open>UserRegistry\<close>

record UserProfile =
  isRegistered :: bool
  name :: string
  registrationTime :: nat

record UserRegistry =
  userProfiles :: "address \<Rightarrow> UserProfile"
  registeredUsers :: "address list"
  totalUsers :: nat

text \<open>\<open>registerUser(_name)\<close>, called by \<open>sender\<close> in a block with timestamp \<open>now\<close>.\<close>

definition registerUser :: "address \<Rightarrow> nat \<Rightarrow> string \<Rightarrow> UserRegistry \<Rightarrow> UserRegistry result" where
  "registerUser sender now nm reg =
     (if isRegistered (userProfiles reg sender)
        then Inl (Revert ''UserRegistry: Address already registered'')
      else if \<not> (length nm > 0)
        then Inl (Revert ''UserRegistry: Name cannot be empty'')
      else if \<not> (length nm \<le> 50)
        then Inl (Revert ''UserRegistry: Name too long'')
      else if \<not> (totalUsers reg + 1 \<le> MAX_UINT256)
        then Inl Panic
      else Inr (reg\<lparr>
        userProfiles := (userProfiles reg)(sender :=
          \<lparr>isRegistered = True, name = nm, registrationTime = now\<rparr>),
        registeredUsers := registeredUsers reg @ [sender],
        totalUsers := totalUsers reg + 1\<rparr>))"

definition updateProfile :: "address \<Rightarrow> string \<Rightarrow> UserRegistry \<Rightarrow> UserRegistry result" where
  "updateProfile sender newName reg =
     (if \<not> isRegistered (userProfiles reg sender)
        then Inl (Revert ''UserRegistry: User not registered'')
      else if \<not> (length newName > 0)
        then Inl (Revert ''UserRegistry: Name cannot be empty'')
      else if \<not> (length newName \<le> 50)
        then Inl (Revert ''UserRegistry: Name too long'')
      else Inr (reg\<lparr>userProfiles := (userProfiles reg)(sender :=
          (userProfiles reg sender)\<lparr>name := newName\<rparr>)\<rparr>))"

definition isUserRegistered :: "UserRegistry \<Rightarrow> address \<Rightarrow> bool" where
  "isUserRegistered reg a = isRegistered (userProfiles reg a)"

text \<open>The registry as the constructor leaves it: no profile, no user.\<close>

definition emptyRegistry :: UserRegistry where
  "emptyRegistry = \<lparr>userProfiles = (\<lambda>_. \<lparr>isRegistered = False, name = [], registrationTime = 0\<rparr>),
     registeredUsers = [], totalUsers = 0\<rparr>"

section \<open>The token collaborator\<close>

text \<open>
  Modelled from the spec: the fungible-token contracts (OpenZeppelin ERC20 behind
  \<open>IERC20\<close>) are not part of the repository. The spec gives the interface
  (\<open>transfer_from\<close>, \<open>transfer\<close>, \<open>balance_of\<close>, \<open>allowance\<close>) and says that a
  failed transfer aborts with \<open>InsufficientBalance\<close> or \<open>InsufficientAllowance\<close>.
  Every address denotes a ledger; a transfer that cannot be made reverts.
\<close>

record ERC20 =
  balanceOf :: "address \<Rightarrow> nat"
  allowance :: "address \<Rightarrow> address \<Rightarrow> nat"

type_synonym ledgers = "address \<Rightarrow> ERC20"

text \<open>
  Modelled from the spec: \<open>IERC20(tok).transfer(to, amt)\<close> called by \<open>from\<close>, the
  spec's \<open>transfer\<close>; it fails on an insufficient balance.
\<close>

definition erc20_transfer :: "address \<Rightarrow> address \<Rightarrow> address \<Rightarrow> nat \<Rightarrow> ledgers \<Rightarrow> ledgers result" where
  "erc20_transfer tok from to amt L =
     (if balanceOf (L tok) from < amt then Inl (Revert ''ERC20: insufficient balance'')
      else let b1 = (balanceOf (L tok))(from := balanceOf (L tok) from - amt) in
      if \<not> (b1 to + amt \<le> MAX_UINT256) then Inl Panic
      else Inr (L(tok := (L tok)\<lparr>balanceOf := b1(to := b1 to + amt)\<rparr>)))"

text \<open>
  Modelled from the spec: \<open>IERC20(tok).transferFrom(from, to, amt)\<close> called by
  \<open>spender\<close>, the spec's \<open>transfer_from\<close>; it fails on an insufficient allowance or
  balance and consumes the allowance.
\<close>

definition erc20_transferFrom :: "address \<Rightarrow> address \<Rightarrow> address \<Rightarrow> address \<Rightarrow> nat \<Rightarrow> ledgers \<Rightarrow> ledgers result" where
  "erc20_transferFrom tok spender from to amt L =
     (if allowance (L tok) from spender < amt then Inl (Revert ''ERC20: insufficient allowance'')
      else case erc20_transfer tok from to amt L of
        Inl e \<Rightarrow> Inl e
      | Inr L1 \<Rightarrow> Inr (L1(tok := (L1 tok)\<lparr>allowance := (allowance (L1 tok))(from :=
            (allowance (L1 tok) from)(spender := allowance (L1 tok) from spender - amt))\<rparr>)))"

section \<open>Data of Reputation and P2PLending\<close>

datatype PaymentModificationType =
    NoModification \<comment> \<open>\<open>PaymentModificationType.None\<close>, the enum's first (zero) value\<close>
  | DueDateExtension
  | PartialPaymentAgreement

datatype LoanStatus =
    Active
  | Repaid
  | Defaulted
  | Cancelled
  | PendingModificationApproval
  | Active_PartialPaymentAgreed
  | Overdue

datatype PaymentOutcomeType =
    NoOutcome \<comment> \<open>\<open>PaymentOutcomeType.None\<close>\<close>
  | OnTimeOriginal
  | LateGraceOriginal
  | OnTimeExtended
  | LateExtended
  | PartialAgreementMetAndRepaid
  | DefaultedOutcome \<comment> \<open>\<open>PaymentOutcomeType.Defaulted\<close>\<close>

record ReputationProfile =
  userAddress :: address
  loansTaken :: nat
  loansGiven :: nat
  loansRepaidOnTime :: nat
  loansRepaidLateGrace :: nat
  loansDefaulted :: nat
  totalValueBorrowed :: nat
  totalValueLent :: nat
  currentReputationScore :: int
  vouchingStakeAmount :: nat
  timesVouchedForOthers :: nat
  timesDefaultedAsVoucher :: nat
  modificationsApprovedByLender :: nat
  modificationsRejectedByLender :: nat

record Vouch =
  voucher :: address
  borrower :: address
  tokenAddress :: address
  stakedAmount :: nat
  isActive :: bool

record Reputation =
  userReputations :: "address \<Rightarrow> ReputationProfile"
  activeVouches :: "address \<Rightarrow> address \<Rightarrow> Vouch"
  userVouchesGiven :: "address \<Rightarrow> Vouch list"
  userVouchesReceived :: "address \<Rightarrow> Vouch list"
  p2pLendingContractAddress :: address

record LoanOffer =
  offer_id :: bytes32 \<comment> \<open>field \<open>id\<close>\<close>
  lender :: address
  amount :: nat
  token :: address
  interestRateBPS :: nat
  durationSeconds :: nat
  requiredCollateralAmount :: nat
  collateralToken :: address
  isActive :: bool
  isFulfilled :: bool

record LoanRequest =
  request_id :: bytes32 \<comment> \<open>field \<open>id\<close>\<close>
  borrower :: address
  amount :: nat
  token :: address
  proposedInterestRateBPS :: nat
  proposedDurationSeconds :: nat
  offeredCollateralAmount :: nat
  collateralToken :: address
  isActive :: bool
  isFulfilled :: bool

record LoanAgreement =
  agreement_id :: bytes32 \<comment> \<open>field \<open>id\<close>\<close>
  originalOfferId :: bytes32
  originalRequestId :: bytes32
  lender :: address
  borrower :: address
  principalAmount :: nat
  loanToken :: address
  interestRateBPS :: nat
  durationSeconds :: nat
  collateralAmount :: nat
  collateralToken :: address
  startTime :: nat
  dueDate :: nat
  amountPaid :: nat
  status :: LoanStatus
  requestedModificationType :: PaymentModificationType
  requestedModificationValue :: nat
  modificationApprovedByLender :: bool

record P2PLending =
  loanOffers :: "bytes32 \<Rightarrow> LoanOffer"
  userLoanOfferIds :: "address \<Rightarrow> bytes32 list"
  loanRequests :: "bytes32 \<Rightarrow> LoanRequest"
  userLoanRequestIds :: "address \<Rightarrow> bytes32 list"
  loanAgreements :: "bytes32 \<Rightarrow> LoanAgreement"
  userLoanAgreementIdsAsLender :: "address \<Rightarrow> bytes32 list"
  userLoanAgreementIdsAsBorrower :: "address \<Rightarrow> bytes32 list"
  reputationContract :: address

text \<open>
  The deployed system: one UserRegistry, one Reputation at \<open>reputationAddr\<close>, one
  P2PLending at \<open>p2pLendingAddr\<close>, and the token ledgers. P2PLending's calls to
  \<open>reputationContract\<close> reach this Reputation with \<open>msg.sender = p2pLendingAddr\<close>.
\<close>

record World =
  userRegistry :: UserRegistry
  reputation :: Reputation
  p2pLending :: P2PLending
  erc20 :: ledgers
  reputationAddr :: address
  p2pLendingAddr :: address

text \<open>Statements in sequence; the first revert ends the transaction.\<close>

fun run :: "('s \<Rightarrow> 's result) list \<Rightarrow> 's \<Rightarrow> 's result" where
  "run [] s = Inr s"
| "run (f # fs) s = (case f s of Inl e \<Rightarrow> Inl e | Inr s' \<Rightarrow> run fs s')"

definition skip :: "'s \<Rightarrow> 's result" where
  "skip s = Inr s"

text \<open>A token call made from inside a contract of the world.\<close>

definition tokenTransfer :: "address \<Rightarrow> address \<Rightarrow> address \<Rightarrow> nat \<Rightarrow> World \<Rightarrow> World result" where
  "tokenTransfer tok from to amt w =
     (case erc20_transfer tok from to amt (erc20 w) of
        Inl e \<Rightarrow> Inl e
      | Inr L \<Rightarrow> Inr (w\<lparr>erc20 := L\<rparr>))"

definition tokenTransferFrom :: "address \<Rightarrow> address \<Rightarrow> address \<Rightarrow> address \<Rightarrow> nat \<Rightarrow> World \<Rightarrow> World result" where
  "tokenTransferFrom tok spender from to amt w =
     (case erc20_transferFrom tok spender from to amt (erc20 w) of
        Inl e \<Rightarrow> Inl e
      | Inr L \<Rightarrow> Inr (w\<lparr>erc20 := L\<rparr>))"

section \<open>Reputation\<close>

text \<open>The reputation point constants.\<close>

definition REPUTATION_POINTS_REPAID_ON_TIME_ORIGINAL :: int where
  "REPUTATION_POINTS_REPAID_ON_TIME_ORIGINAL = 10"
definition REPUTATION_POINTS_REPAID_LATE_GRACE :: int where
  "REPUTATION_POINTS_REPAID_LATE_GRACE = 3"
definition REPUTATION_POINTS_REPAID_ON_TIME_AFTER_EXTENSION :: int where
  "REPUTATION_POINTS_REPAID_ON_TIME_AFTER_EXTENSION = 7"
definition REPUTATION_POINTS_REPAID_LATE_AFTER_EXTENSION :: int where
  "REPUTATION_POINTS_REPAID_LATE_AFTER_EXTENSION = 2"
definition REPUTATION_POINTS_REPAID_WITH_PARTIAL_AGREEMENT_MET :: int where
  "REPUTATION_POINTS_REPAID_WITH_PARTIAL_AGREEMENT_MET = 8"
definition REPUTATION_POINTS_DEFAULTED :: int where
  "REPUTATION_POINTS_DEFAULTED = - 50"
definition REPUTATION_POINTS_LENT_SUCCESSFULLY_ON_TIME_ORIGINAL :: int where
  "REPUTATION_POINTS_LENT_SUCCESSFULLY_ON_TIME_ORIGINAL = 5"
definition REPUTATION_POINTS_LENT_SUCCESSFULLY_AFTER_MODIFICATION :: int where
  "REPUTATION_POINTS_LENT_SUCCESSFULLY_AFTER_MODIFICATION = 3"
definition REPUTATION_POINTS_LENDER_APPROVED_EXTENSION :: int where
  "REPUTATION_POINTS_LENDER_APPROVED_EXTENSION = 2"
definition REPUTATION_POINTS_LENDER_APPROVED_PARTIAL_AGREEMENT :: int where
  "REPUTATION_POINTS_LENDER_APPROVED_PARTIAL_AGREEMENT = 1"
definition REPUTATION_POINTS_LENDER_REJECTED_MODIFICATION :: int where
  "REPUTATION_POINTS_LENDER_REJECTED_MODIFICATION = 0"
definition REPUTATION_POINTS_VOUCH_DEFAULTED_VOUCHER :: int where
  "REPUTATION_POINTS_VOUCH_DEFAULTED_VOUCHER = - 20"

text \<open>
  Writes through a storage pointer \<open>userReputations[a]\<close> are updates of the mapping at
  \<open>a\<close>, so two pointers to the same profile alias as they do in storage.
\<close>

definition profileOf :: "World \<Rightarrow> address \<Rightarrow> ReputationProfile" where
  "profileOf w a = userReputations (reputation w) a"

definition setProfile :: "address \<Rightarrow> (ReputationProfile \<Rightarrow> ReputationProfile) \<Rightarrow> World \<Rightarrow> World" where
  "setProfile a f w = w\<lparr>reputation := (reputation w)\<lparr>userReputations :=
       (userReputations (reputation w))(a := f (userReputations (reputation w) a))\<rparr>\<rparr>"

text \<open>\<open>profile.field += n\<close> and \<open>profile.field++\<close> on a \<open>uint256\<close> field.\<close>

definition uintAdd :: "(ReputationProfile \<Rightarrow> nat) \<Rightarrow> ((nat \<Rightarrow> nat) \<Rightarrow> ReputationProfile \<Rightarrow> ReputationProfile)
    \<Rightarrow> address \<Rightarrow> nat \<Rightarrow> World \<Rightarrow> World result" where
  "uintAdd get upd a n w =
     (if get (profileOf w a) + n \<le> MAX_UINT256
      then Inr (setProfile a (upd (\<lambda>v. v + n)) w)
      else Inl Panic)"

text \<open>\<open>profile.field -= n\<close> on a \<open>uint256\<close> field.\<close>

definition uintSub :: "(ReputationProfile \<Rightarrow> nat) \<Rightarrow> ((nat \<Rightarrow> nat) \<Rightarrow> ReputationProfile \<Rightarrow> ReputationProfile)
    \<Rightarrow> address \<Rightarrow> nat \<Rightarrow> World \<Rightarrow> World result" where
  "uintSub get upd a n w =
     (if n \<le> get (profileOf w a)
      then Inr (setProfile a (upd (\<lambda>v. v - n)) w)
      else Inl Panic)"

text \<open>\<open>profile.currentReputationScore += d\<close> on the \<open>int256\<close> score.\<close>

definition scoreAdd :: "address \<Rightarrow> int \<Rightarrow> World \<Rightarrow> World result" where
  "scoreAdd a d w =
     (if MIN_INT256 \<le> currentReputationScore (profileOf w a) + d
         \<and> currentReputationScore (profileOf w a) + d \<le> MAX_INT256
      then Inr (setProfile a (currentReputationScore_update (\<lambda>v. v + d)) w)
      else Inl Panic)"

definition initializeReputationProfileIfNotExists :: "address \<Rightarrow> World \<Rightarrow> World result" where
  "initializeReputationProfileIfNotExists user w =
     (if userAddress (profileOf w user) = 0 \<and> isUserRegistered (userRegistry w) user
      then Inr (setProfile user (\<lambda>_. \<lparr>
          userAddress = user,
          loansTaken = 0,
          loansGiven = 0,
          loansRepaidOnTime = 0,
          loansRepaidLateGrace = 0,
          loansDefaulted = 0,
          totalValueBorrowed = 0,
          totalValueLent = 0,
          currentReputationScore = 0,
          vouchingStakeAmount = 0,
          timesVouchedForOthers = 0,
          timesDefaultedAsVoucher = 0,
          modificationsApprovedByLender = 0,
          modificationsRejectedByLender = 0\<rparr>) w)
      else Inr w)"

text \<open>
  The branch on \<open>outcome\<close> in \<open>recordLoanPaymentOutcome\<close>: the borrower's change, and
  the lender's change as it stands after the branch (it starts at 0).
\<close>

definition borrowerRepChange :: "PaymentOutcomeType \<Rightarrow> int" where
  "borrowerRepChange outcome =
     (if outcome = OnTimeOriginal then REPUTATION_POINTS_REPAID_ON_TIME_ORIGINAL
      else if outcome = LateGraceOriginal then REPUTATION_POINTS_REPAID_LATE_GRACE
      else if outcome = OnTimeExtended then REPUTATION_POINTS_REPAID_ON_TIME_AFTER_EXTENSION
      else if outcome = LateExtended then REPUTATION_POINTS_REPAID_LATE_AFTER_EXTENSION
      else if outcome = PartialAgreementMetAndRepaid then REPUTATION_POINTS_REPAID_WITH_PARTIAL_AGREEMENT_MET
      else 0)"

definition lenderBaseRepChange :: "PaymentOutcomeType \<Rightarrow> int" where
  "lenderBaseRepChange outcome =
     (if outcome = OnTimeOriginal then 0 + REPUTATION_POINTS_LENT_SUCCESSFULLY_ON_TIME_ORIGINAL
      else if outcome = LateGraceOriginal then 0 + REPUTATION_POINTS_LENT_SUCCESSFULLY_AFTER_MODIFICATION
      else if outcome = OnTimeExtended then 0 + REPUTATION_POINTS_LENT_SUCCESSFULLY_AFTER_MODIFICATION
      else if outcome = LateExtended then 0 + REPUTATION_POINTS_LENT_SUCCESSFULLY_AFTER_MODIFICATION
      else if outcome = PartialAgreementMetAndRepaid then 0 + REPUTATION_POINTS_LENT_SUCCESSFULLY_AFTER_MODIFICATION
      else 0)"

text \<open>The counter of the borrower that the branch on \<open>outcome\<close> increments.\<close>

definition borrowerOutcomeCounter :: "PaymentOutcomeType \<Rightarrow> address \<Rightarrow> World \<Rightarrow> World result" where
  "borrowerOutcomeCounter outcome b =
     (if outcome = OnTimeOriginal then uintAdd loansRepaidOnTime loansRepaidOnTime_update b 1
      else if outcome = LateGraceOriginal then uintAdd loansRepaidLateGrace loansRepaidLateGrace_update b 1
      else if outcome = OnTimeExtended then uintAdd loansRepaidOnTime loansRepaidOnTime_update b 1
      else if outcome = LateExtended then uintAdd loansRepaidLateGrace loansRepaidLateGrace_update b 1
      else if outcome = PartialAgreementMetAndRepaid then uintAdd loansRepaidOnTime loansRepaidOnTime_update b 1
      else skip)"

text \<open>
  The lender's change after the block "Lender reputation adjustments based on
  modification handling".
\<close>

definition lenderRepChange :: "PaymentOutcomeType \<Rightarrow> PaymentModificationType \<Rightarrow> bool \<Rightarrow> int" where
  "lenderRepChange outcome modificationTypeUsed lenderApprovedRequest =
     (if lenderApprovedRequest then
        (if modificationTypeUsed = DueDateExtension
           then lenderBaseRepChange outcome + REPUTATION_POINTS_LENDER_APPROVED_EXTENSION
         else if modificationTypeUsed = PartialPaymentAgreement
           then lenderBaseRepChange outcome + REPUTATION_POINTS_LENDER_APPROVED_PARTIAL_AGREEMENT
         else lenderBaseRepChange outcome)
      else if modificationTypeUsed \<noteq> NoModification
        then lenderBaseRepChange outcome + REPUTATION_POINTS_LENDER_REJECTED_MODIFICATION
      else lenderBaseRepChange outcome)"

definition lenderModificationCounter :: "PaymentModificationType \<Rightarrow> bool \<Rightarrow> address \<Rightarrow> World \<Rightarrow> World result" where
  "lenderModificationCounter modificationTypeUsed lenderApprovedRequest l =
     (if lenderApprovedRequest
        then uintAdd modificationsApprovedByLender modificationsApprovedByLender_update l 1
      else if modificationTypeUsed \<noteq> NoModification
        then uintAdd modificationsRejectedByLender modificationsRejectedByLender_update l 1
      else skip)"

text \<open>\<open>recordLoanPaymentOutcome\<close>, called by \<open>sender\<close>.\<close>

definition recordLoanPaymentOutcome :: "address \<Rightarrow> bytes32 \<Rightarrow> address \<Rightarrow> address \<Rightarrow> nat
    \<Rightarrow> PaymentOutcomeType \<Rightarrow> PaymentModificationType \<Rightarrow> bool \<Rightarrow> World \<Rightarrow> World result" where
  "recordLoanPaymentOutcome sender agreementId b l principalAmt outcome modificationTypeUsed lenderApprovedRequest w =
     (if \<not> (sender = p2pLendingContractAddress (reputation w))
        then Inl (Revert ''Reputation: Caller is not P2PLending contract'')
      else run [
        initializeReputationProfileIfNotExists b,
        initializeReputationProfileIfNotExists l,
        uintAdd loansTaken loansTaken_update b 1,
        uintAdd totalValueBorrowed totalValueBorrowed_update b principalAmt,
        borrowerOutcomeCounter outcome b,
        (if borrowerRepChange outcome \<noteq> 0 then scoreAdd b (borrowerRepChange outcome) else skip),
        lenderModificationCounter modificationTypeUsed lenderApprovedRequest l,
        uintAdd loansGiven loansGiven_update l 1,
        uintAdd totalValueLent totalValueLent_update l principalAmt,
        (if lenderRepChange outcome modificationTypeUsed lenderApprovedRequest \<noteq> 0
           then scoreAdd l (lenderRepChange outcome modificationTypeUsed lenderApprovedRequest)
         else skip)
      ] w)"

text \<open>\<open>updateReputationOnLoanDefault\<close> (the spec's \<open>record_loan_default\<close>), called by \<open>sender\<close>.\<close>

definition updateReputationOnLoanDefault :: "address \<Rightarrow> address \<Rightarrow> World \<Rightarrow> World result" where
  "updateReputationOnLoanDefault sender b w =
     (if \<not> (sender = p2pLendingContractAddress (reputation w))
        then Inl (Revert ''Reputation: Caller is not P2PLending contract'')
      else run [
        initializeReputationProfileIfNotExists b,
        uintAdd loansTaken loansTaken_update b 1,
        uintAdd loansDefaulted loansDefaulted_update b 1,
        scoreAdd b REPUTATION_POINTS_DEFAULTED
      ] w)"

definition vouchOf :: "World \<Rightarrow> address \<Rightarrow> address \<Rightarrow> Vouch" where
  "vouchOf w v b = activeVouches (reputation w) v b"

definition setVouch :: "address \<Rightarrow> address \<Rightarrow> (Vouch \<Rightarrow> Vouch) \<Rightarrow> World \<Rightarrow> World" where
  "setVouch v b f w = w\<lparr>reputation := (reputation w)\<lparr>activeVouches :=
       (activeVouches (reputation w))(v := (activeVouches (reputation w) v)(b :=
          f (activeVouches (reputation w) v b)))\<rparr>\<rparr>"

definition pushVouchGiven :: "address \<Rightarrow> Vouch \<Rightarrow> World \<Rightarrow> World" where
  "pushVouchGiven v x w = w\<lparr>reputation := (reputation w)\<lparr>userVouchesGiven :=
       (userVouchesGiven (reputation w))(v := userVouchesGiven (reputation w) v @ [x])\<rparr>\<rparr>"

definition pushVouchReceived :: "address \<Rightarrow> Vouch \<Rightarrow> World \<Rightarrow> World" where
  "pushVouchReceived b x w = w\<lparr>reputation := (reputation w)\<lparr>userVouchesReceived :=
       (userVouchesReceived (reputation w))(b := userVouchesReceived (reputation w) b @ [x])\<rparr>\<rparr>"

text \<open>\<open>addVouch\<close>, called by \<open>sender\<close>.\<close>

definition addVouch :: "address \<Rightarrow> address \<Rightarrow> nat \<Rightarrow> address \<Rightarrow> World \<Rightarrow> World result" where
  "addVouch sender borrowerToVouchFor amountToStake tokAddress w =
     (if \<not> isUserRegistered (userRegistry w) sender
        then Inl (Revert ''Reputation: User not World ID verified'')
      else if \<not> (borrowerToVouchFor \<noteq> sender)
        then Inl (Revert ''Cannot vouch for yourself'')
      else if \<not> isUserRegistered (userRegistry w) borrowerToVouchFor
        then Inl (Revert ''Borrower not World ID verified'')
      else if \<not> (amountToStake > 0)
        then Inl (Revert ''Stake amount must be positive'')
      else if \<not> (tokAddress \<noteq> 0)
        then Inl (Revert ''Invalid token address'')
      else if \<not> (\<not> Vouch.isActive (vouchOf w sender borrowerToVouchFor))
        then Inl (Revert ''Already actively vouching for this borrower'')
      else
        let newVouch = \<lparr>voucher = sender, borrower = borrowerToVouchFor,
              tokenAddress = tokAddress, stakedAmount = amountToStake, isActive = True\<rparr>
        in run [
          initializeReputationProfileIfNotExists sender,
          initializeReputationProfileIfNotExists borrowerToVouchFor,
          tokenTransferFrom tokAddress (reputationAddr w) sender (reputationAddr w) amountToStake,
          (\<lambda>w. Inr (setVouch sender borrowerToVouchFor (\<lambda>_. newVouch) w)),
          (\<lambda>w. Inr (pushVouchGiven sender newVouch w)),
          (\<lambda>w. Inr (pushVouchReceived borrowerToVouchFor newVouch w)),
          uintAdd vouchingStakeAmount vouchingStakeAmount_update sender amountToStake,
          uintAdd timesVouchedForOthers timesVouchedForOthers_update sender 1
        ] w)"

text \<open>\<open>removeVouch\<close>, called by \<open>sender\<close>.\<close>

definition removeVouch :: "address \<Rightarrow> address \<Rightarrow> World \<Rightarrow> World result" where
  "removeVouch sender borrowerVouchedFor w =
     (if \<not> isUserRegistered (userRegistry w) sender
        then Inl (Revert ''Reputation: User not World ID verified'')
      else if \<not> Vouch.isActive (vouchOf w sender borrowerVouchedFor)
        then Inl (Revert ''No active vouch for this borrower'')
      else
        let stakedAmountToReturn = stakedAmount (vouchOf w sender borrowerVouchedFor) in
        run [
          (\<lambda>w. Inr (setVouch sender borrowerVouchedFor (\<lambda>x. x\<lparr>Vouch.isActive := False\<rparr>) w)),
          uintSub vouchingStakeAmount vouchingStakeAmount_update sender stakedAmountToReturn,
          (\<lambda>w. tokenTransfer (tokenAddress (vouchOf w sender borrowerVouchedFor))
                  (reputationAddr w) sender stakedAmountToReturn w)
        ] w)"

text \<open>\<open>slashVouchAndReputation\<close>, called by \<open>sender\<close>.\<close>

definition slashVouchAndReputation :: "address \<Rightarrow> address \<Rightarrow> address \<Rightarrow> nat \<Rightarrow> address \<Rightarrow> World \<Rightarrow> World result" where
  "slashVouchAndReputation sender vchr defaultingBorrower amountToSlash lenderToCompensate w =
     (if \<not> (sender = p2pLendingContractAddress (reputation w))
        then Inl (Revert ''Reputation: Caller is not P2PLending contract'')
      else if \<not> Vouch.isActive (vouchOf w vchr defaultingBorrower)
        then Inl (Revert ''Vouch not active or does not exist'')
      else if \<not> (amountToSlash \<le> stakedAmount (vouchOf w vchr defaultingBorrower))
        then Inl (Revert ''Slash amount exceeds staked amount'')
      else if \<not> (amountToSlash > 0)
        then Inl (Revert ''Slash amount must be positive'')
      else run [
        initializeReputationProfileIfNotExists vchr,
        (\<lambda>w. Inr (setVouch vchr defaultingBorrower (\<lambda>x. x\<lparr>stakedAmount := stakedAmount x - amountToSlash\<rparr>) w)),
        scoreAdd vchr REPUTATION_POINTS_VOUCH_DEFAULTED_VOUCHER,
        uintSub vouchingStakeAmount vouchingStakeAmount_update vchr amountToSlash,
        uintAdd timesDefaultedAsVoucher timesDefaultedAsVoucher_update vchr 1,
        (\<lambda>w. tokenTransfer (tokenAddress (vouchOf w vchr defaultingBorrower))
                (reputationAddr w) lenderToCompensate amountToSlash w),
        (\<lambda>w. if stakedAmount (vouchOf w vchr defaultingBorrower) = 0
              then Inr (setVouch vchr defaultingBorrower (\<lambda>x. x\<lparr>Vouch.isActive := False\<rparr>) w)
              else Inr w)
      ] w)"

text \<open>
  \<open>getActiveVouchesForBorrower\<close>: the first loop counts the entries of the borrower's
  received history whose (voucher, borrower) entry in \<open>activeVouches\<close> is active; the
  second loop copies the current \<open>activeVouches\<close> entry of each such history entry, in
  order, into an array of that size.
\<close>

fun countActive :: "Reputation \<Rightarrow> Vouch list \<Rightarrow> nat" where
  "countActive r [] = 0"
| "countActive r (e # es) =
     (if Vouch.isActive (activeVouches r (voucher e) (Vouch.borrower e))
      then countActive r es + 1 else countActive r es)"

fun fillActive :: "Reputation \<Rightarrow> Vouch list \<Rightarrow> Vouch list" where
  "fillActive r [] = []"
| "fillActive r (e # es) =
     (let currentVouchState = activeVouches r (voucher e) (Vouch.borrower e) in
      if Vouch.isActive currentVouchState
      then currentVouchState # fillActive r es else fillActive r es)"

definition getActiveVouchesForBorrower :: "World \<Rightarrow> address \<Rightarrow> Vouch list" where
  "getActiveVouchesForBorrower w b =
     (let allReceived = userVouchesReceived (reputation w) b in
      take (countActive (reputation w) allReceived) (fillActive (reputation w) allReceived))"

section \<open>P2PLending\<close>

definition BASIS_POINTS :: nat where
  "BASIS_POINTS = 10000"

definition MAX_UINT16 :: nat where
  "MAX_UINT16 = 65535"

definition agreementOf :: "World \<Rightarrow> bytes32 \<Rightarrow> LoanAgreement" where
  "agreementOf w i = loanAgreements (p2pLending w) i"

definition setAgreement :: "bytes32 \<Rightarrow> (LoanAgreement \<Rightarrow> LoanAgreement) \<Rightarrow> World \<Rightarrow> World" where
  "setAgreement i f w = w\<lparr>p2pLending := (p2pLending w)\<lparr>loanAgreements :=
       (loanAgreements (p2pLending w))(i := f (loanAgreements (p2pLending w) i))\<rparr>\<rparr>"

definition pushAgreementIds :: "address \<Rightarrow> address \<Rightarrow> bytes32 \<Rightarrow> World \<Rightarrow> World" where
  "pushAgreementIds l b i w = w\<lparr>p2pLending := (p2pLending w)\<lparr>
       userLoanAgreementIdsAsLender :=
         (userLoanAgreementIdsAsLender (p2pLending w))(l := userLoanAgreementIdsAsLender (p2pLending w) l @ [i]),
       userLoanAgreementIdsAsBorrower :=
         (userLoanAgreementIdsAsBorrower (p2pLending w))(b := userLoanAgreementIdsAsBorrower (p2pLending w) b @ [i])\<rparr>\<rparr>"

text \<open>\<open>createLoanOffer\<close>, called by \<open>sender\<close> at time \<open>now\<close>; returns the offer id.\<close>

definition createLoanOffer :: "address \<Rightarrow> nat \<Rightarrow> nat \<Rightarrow> address \<Rightarrow> nat \<Rightarrow> nat \<Rightarrow> nat \<Rightarrow> address
    \<Rightarrow> World \<Rightarrow> (bytes32 \<times> World) result" where
  "createLoanOffer sender now amount' token' interestRateBPS' durationSeconds'
       requiredCollateralAmount' collateralToken' w =
     (if \<not> (interestRateBPS' \<le> MAX_UINT16)
        then Inl (Revert []) \<comment> \<open>not a \<open>uint16\<close>: the call does not decode\<close>
      else if \<not> isUserRegistered (userRegistry w) sender
        then Inl (Revert ''P2PL: User not World ID verified'')
      else if \<not> (amount' > 0)
        then Inl (Revert ''P2PL: Offer amount must be > 0'')
      else if \<not> (token' \<noteq> 0)
        then Inl (Revert ''P2PL: Invalid loan token'')
      else if \<not> (durationSeconds' > 0)
        then Inl (Revert ''P2PL: Duration must be > 0'')
      else if requiredCollateralAmount' > 0 \<and> \<not> (collateralToken' \<noteq> 0)
        then Inl (Revert ''P2PL: Invalid collateral token for non-zero amount'')
      else if \<not> (requiredCollateralAmount' > 0) \<and> \<not> (collateralToken' = 0)
        then Inl (Revert ''P2PL: Collateral token must be zero for zero amount'')
      else if \<not> (balanceOf (erc20 w token') sender \<ge> amount')
        then Inl (Revert ''P2PL: Insufficient balance for offer'')
      else
        let offerId = Keccak7 sender amount' token' interestRateBPS' durationSeconds' now
              (length (userLoanOfferIds (p2pLending w) sender));
            w1 = w\<lparr>p2pLending := (p2pLending w)\<lparr>
              loanOffers := (loanOffers (p2pLending w))(offerId := \<lparr>
                offer_id = offerId,
                lender = sender,
                amount = amount',
                token = token',
                interestRateBPS = interestRateBPS',
                durationSeconds = durationSeconds',
                requiredCollateralAmount = requiredCollateralAmount',
                collateralToken = collateralToken',
                isActive = True,
                isFulfilled = False\<rparr>),
              userLoanOfferIds := (userLoanOfferIds (p2pLending w))(sender :=
                userLoanOfferIds (p2pLending w) sender @ [offerId])\<rparr>\<rparr>
        in case tokenTransferFrom token' (p2pLendingAddr w1) sender (p2pLendingAddr w1) amount' w1 of
             Inl e \<Rightarrow> Inl e
           | Inr w2 \<Rightarrow> Inr (offerId, w2))"

text \<open>\<open>createLoanRequest\<close>, called by \<open>sender\<close> at time \<open>now\<close>; returns the request id.\<close>

definition createLoanRequest :: "address \<Rightarrow> nat \<Rightarrow> nat \<Rightarrow> address \<Rightarrow> nat \<Rightarrow> nat \<Rightarrow> nat \<Rightarrow> address
    \<Rightarrow> World \<Rightarrow> (bytes32 \<times> World) result" where
  "createLoanRequest sender now amount' token' proposedInterestRateBPS' proposedDurationSeconds'
       offeredCollateralAmount' offeredCollateralToken' w =
     (if \<not> (proposedInterestRateBPS' \<le> MAX_UINT16)
        then Inl (Revert []) \<comment> \<open>not a \<open>uint16\<close>: the call does not decode\<close>
      else if \<not> isUserRegistered (userRegistry w) sender
        then Inl (Revert ''P2PL: User not World ID verified'')
      else if \<not> (amount' > 0)
        then Inl (Revert ''P2PL: Request amount must be > 0'')
      else if \<not> (token' \<noteq> 0)
        then Inl (Revert ''P2PL: Invalid loan token'')
      else if \<not> (proposedDurationSeconds' > 0)
        then Inl (Revert ''P2PL: Duration must be > 0'')
      else if offeredCollateralAmount' > 0 \<and> \<not> (offeredCollateralToken' \<noteq> 0)
        then Inl (Revert ''P2PL: Invalid collateral token for non-zero amount'')
      else if offeredCollateralAmount' > 0
              \<and> \<not> (balanceOf (erc20 w offeredCollateralToken') sender \<ge> offeredCollateralAmount')
        then Inl (Revert ''P2PL: Insufficient collateral balance for request'')
      else if \<not> (offeredCollateralAmount' > 0) \<and> \<not> (offeredCollateralToken' = 0)
        then Inl (Revert ''P2PL: Collateral token must be zero for zero amount'')
      else
        let requestId = Keccak7 sender amount' token' proposedInterestRateBPS' proposedDurationSeconds' now
              (length (userLoanRequestIds (p2pLending w) sender))
        in Inr (requestId, w\<lparr>p2pLending := (p2pLending w)\<lparr>
              loanRequests := (loanRequests (p2pLending w))(requestId := \<lparr>
                request_id = requestId,
                borrower = sender,
                amount = amount',
                token = token',
                proposedInterestRateBPS = proposedInterestRateBPS',
                proposedDurationSeconds = proposedDurationSeconds',
                offeredCollateralAmount = offeredCollateralAmount',
                collateralToken = offeredCollateralToken',
                isActive = True,
                isFulfilled = False\<rparr>),
              userLoanRequestIds := (userLoanRequestIds (p2pLending w))(sender :=
                userLoanRequestIds (p2pLending w) sender @ [requestId])\<rparr>\<rparr>))"

text \<open>The collateral block of \<open>acceptLoanOffer\<close>.\<close>

definition acceptCollateral :: "address \<Rightarrow> LoanOffer \<Rightarrow> nat \<Rightarrow> address \<Rightarrow> World \<Rightarrow> World result" where
  "acceptCollateral sender offer borrowerCollateralAmount' borrowerCollateralToken' w =
     (if requiredCollateralAmount offer > 0 then
        (if \<not> (borrowerCollateralToken' = LoanOffer.collateralToken offer)
           then Inl (Revert ''P2PL: Collateral token mismatch'')
         else if \<not> (borrowerCollateralAmount' = requiredCollateralAmount offer)
           then Inl (Revert ''P2PL: Collateral amount mismatch'')
         else if \<not> (balanceOf (erc20 w borrowerCollateralToken') sender \<ge> borrowerCollateralAmount')
           then Inl (Revert ''P2PL: Insufficient collateral balance'')
         else tokenTransferFrom borrowerCollateralToken' (p2pLendingAddr w) sender (p2pLendingAddr w)
                borrowerCollateralAmount' w)
      else
        (if \<not> (borrowerCollateralAmount' = 0)
           then Inl (Revert ''P2PL: Collateral not required by offer'')
         else if \<not> (borrowerCollateralToken' = 0)
           then Inl (Revert ''P2PL: Collateral not required by offer'')
         else Inr w))"

text \<open>\<open>acceptLoanOffer\<close>, called by \<open>sender\<close> at time \<open>now\<close>; returns the agreement id.\<close>

definition acceptLoanOffer :: "address \<Rightarrow> nat \<Rightarrow> bytes32 \<Rightarrow> nat \<Rightarrow> address
    \<Rightarrow> World \<Rightarrow> (bytes32 \<times> World) result" where
  "acceptLoanOffer sender now offerId' borrowerCollateralAmount' borrowerCollateralToken' w =
     (let offer = loanOffers (p2pLending w) offerId' in
      if \<not> isUserRegistered (userRegistry w) sender
        then Inl (Revert ''P2PL: User not World ID verified'')
      else if \<not> (LoanOffer.lender offer \<noteq> 0)
        then Inl (Revert ''P2PL: Offer does not exist'')
      else if \<not> LoanOffer.isActive offer
        then Inl (Revert ''P2PL: Offer not active'')
      else if \<not> (\<not> LoanOffer.isFulfilled offer)
        then Inl (Revert ''P2PL: Offer already fulfilled'')
      else if \<not> (LoanOffer.lender offer \<noteq> sender)
        then Inl (Revert ''P2PL: Cannot accept own offer'')
      else case acceptCollateral sender offer borrowerCollateralAmount' borrowerCollateralToken' w of
        Inl e \<Rightarrow> Inl e
      | Inr w1 \<Rightarrow>
      (case tokenTransfer (LoanOffer.token offer) (p2pLendingAddr w1) sender (LoanOffer.amount offer) w1 of
        Inl e \<Rightarrow> Inl e
      | Inr w2 \<Rightarrow>
        let w3 = w2\<lparr>p2pLending := (p2pLending w2)\<lparr>loanOffers := (loanOffers (p2pLending w2))(offerId' :=
                   (loanOffers (p2pLending w2) offerId')\<lparr>LoanOffer.isFulfilled := True,
                      LoanOffer.isActive := False\<rparr>)\<rparr>\<rparr>;
            startTime' = now
        in if \<not> (startTime' + LoanOffer.durationSeconds offer \<le> MAX_UINT256) then Inl Panic
        else
        let dueDate' = startTime' + LoanOffer.durationSeconds offer;
            agreementId = Keccak3 (offer_id offer) sender startTime';
            w4 = setAgreement agreementId (\<lambda>_. \<lparr>
              agreement_id = agreementId,
              originalOfferId = offerId',
              originalRequestId = Zero32,
              lender = LoanOffer.lender offer,
              borrower = sender,
              principalAmount = LoanOffer.amount offer,
              loanToken = LoanOffer.token offer,
              interestRateBPS = LoanOffer.interestRateBPS offer,
              durationSeconds = LoanOffer.durationSeconds offer,
              collateralAmount = borrowerCollateralAmount',
              collateralToken = borrowerCollateralToken',
              startTime = startTime',
              dueDate = dueDate',
              amountPaid = 0,
              status = Active,
              requestedModificationType = DueDateExtension,
              requestedModificationValue = 0,
              modificationApprovedByLender = False\<rparr>) w3
        in Inr (agreementId, pushAgreementIds (LoanOffer.lender offer) sender agreementId w4)))"

text \<open>\<open>fundLoanRequest\<close>, called by \<open>sender\<close> at time \<open>now\<close>; returns the agreement id.\<close>

definition fundLoanRequest :: "address \<Rightarrow> nat \<Rightarrow> bytes32 \<Rightarrow> World \<Rightarrow> (bytes32 \<times> World) result" where
  "fundLoanRequest sender now requestId' w =
     (let request = loanRequests (p2pLending w) requestId' in
      if \<not> isUserRegistered (userRegistry w) sender
        then Inl (Revert ''P2PL: User not World ID verified'')
      else if \<not> (LoanRequest.borrower request \<noteq> 0)
        then Inl (Revert ''P2PL: Request does not exist'')
      else if \<not> LoanRequest.isActive request
        then Inl (Revert ''P2PL: Request not active'')
      else if \<not> (\<not> LoanRequest.isFulfilled request)
        then Inl (Revert ''P2PL: Request already fulfilled'')
      else if \<not> (LoanRequest.borrower request \<noteq> sender)
        then Inl (Revert ''P2PL: Cannot fund own request'')
      else if \<not> (balanceOf (erc20 w (LoanRequest.token request)) sender \<ge> LoanRequest.amount request)
        then Inl (Revert ''P2PL: Insufficient balance to fund'')
      else case tokenTransferFrom (LoanRequest.token request) (p2pLendingAddr w) sender
                  (LoanRequest.borrower request) (LoanRequest.amount request) w of
        Inl e \<Rightarrow> Inl e
      | Inr w1 \<Rightarrow>
      (case (if offeredCollateralAmount request > 0
             then tokenTransferFrom (LoanRequest.collateralToken request) (p2pLendingAddr w1)
                    (LoanRequest.borrower request) (p2pLendingAddr w1) (offeredCollateralAmount request) w1
             else Inr w1) of
        Inl e \<Rightarrow> Inl e
      | Inr w2 \<Rightarrow>
        let w3 = w2\<lparr>p2pLending := (p2pLending w2)\<lparr>loanRequests := (loanRequests (p2pLending w2))(requestId' :=
                   (loanRequests (p2pLending w2) requestId')\<lparr>LoanRequest.isActive := False,
                      LoanRequest.isFulfilled := True\<rparr>)\<rparr>\<rparr>;
            startTime' = now
        in if \<not> (startTime' + proposedDurationSeconds request \<le> MAX_UINT256) then Inl Panic
        else
        let dueDate' = startTime' + proposedDurationSeconds request;
            agreementId = Keccak3 (request_id request) sender startTime';
            w4 = setAgreement agreementId (\<lambda>_. \<lparr>
              agreement_id = agreementId,
              originalOfferId = Zero32,
              originalRequestId = requestId',
              lender = sender,
              borrower = LoanRequest.borrower request,
              principalAmount = LoanRequest.amount request,
              loanToken = LoanRequest.token request,
              interestRateBPS = proposedInterestRateBPS request,
              durationSeconds = proposedDurationSeconds request,
              collateralAmount = offeredCollateralAmount request,
              collateralToken = LoanRequest.collateralToken request,
              startTime = startTime',
              dueDate = dueDate',
              amountPaid = 0,
              status = Active,
              requestedModificationType = DueDateExtension,
              requestedModificationValue = 0,
              modificationApprovedByLender = False\<rparr>) w3
        in Inr (agreementId, pushAgreementIds sender (LoanRequest.borrower request) agreementId w4)))"

text \<open>\<open>_calculateInterest\<close> and \<open>_calculateTotalDue\<close>.\<close>

definition calculateInterest :: "nat \<Rightarrow> nat \<Rightarrow> nat result" where
  "calculateInterest principalAmt interestRateBps =
     (if principalAmt = 0 \<or> interestRateBps = 0 then Inr 0
      else if \<not> (principalAmt * interestRateBps \<le> MAX_UINT256) then Inl Panic
      else Inr ((principalAmt * interestRateBps) div BASIS_POINTS))"

definition calculateTotalDue :: "LoanAgreement \<Rightarrow> nat result" where
  "calculateTotalDue agreement =
     (case calculateInterest (principalAmount agreement) (LoanAgreement.interestRateBPS agreement) of
        Inl e \<Rightarrow> Inl e
      | Inr interest \<Rightarrow>
          if \<not> (principalAmount agreement + interest \<le> MAX_UINT256) then Inl Panic
          else Inr (principalAmount agreement + interest))"

text \<open>
  The status chosen in \<open>repayLoan\<close> once \<open>amountPaid\<close> has been increased: the chain
  "fully paid / past due date / within due date", which the source writes out twice.
\<close>

definition statusAfterPayment :: "nat \<Rightarrow> nat \<Rightarrow> LoanAgreement \<Rightarrow> LoanStatus" where
  "statusAfterPayment now totalDue agreement =
     (if amountPaid agreement \<ge> totalDue then Repaid
      else if now > dueDate agreement then Overdue
      else Active)"

text \<open>
  The classification block of \<open>repayLoan\<close> (\<open>outcomeType\<close> starts as \<open>None\<close>;
  \<open>originalDueDate\<close> is \<open>agreement.dueDate\<close> at this repayment).
\<close>

definition classifyOutcome :: "nat \<Rightarrow> nat \<Rightarrow> PaymentModificationType \<Rightarrow> bool \<Rightarrow> PaymentOutcomeType" where
  "classifyOutcome now originalDueDate originalModificationTypeBeforeRepay wasModificationApprovedBeforeRepay =
     (if now \<le> originalDueDate then
        (if wasModificationApprovedBeforeRepay then
           (if originalModificationTypeBeforeRepay = DueDateExtension then OnTimeExtended
            else if originalModificationTypeBeforeRepay = PartialPaymentAgreement then PartialAgreementMetAndRepaid
            else NoOutcome)
         else OnTimeOriginal)
      else
        (if wasModificationApprovedBeforeRepay \<and> originalModificationTypeBeforeRepay = DueDateExtension
           then LateExtended
         else LateGraceOriginal))"

text \<open>The part of \<open>repayLoan\<close> that runs when \<open>newStatus == LoanStatus.Repaid\<close>.\<close>

definition settleRepaid :: "nat \<Rightarrow> bytes32 \<Rightarrow> PaymentModificationType \<Rightarrow> bool \<Rightarrow> World \<Rightarrow> World result" where
  "settleRepaid now agreementId originalModificationTypeBeforeRepay wasModificationApprovedBeforeRepay w =
     (let agreement = agreementOf w agreementId;
          outcomeType = classifyOutcome now (dueDate agreement)
             originalModificationTypeBeforeRepay wasModificationApprovedBeforeRepay
      in run [
        (\<lambda>w. if collateralAmount agreement > 0 \<and> LoanAgreement.collateralToken agreement \<noteq> 0
              then tokenTransfer (LoanAgreement.collateralToken agreement) (p2pLendingAddr w)
                     (LoanAgreement.borrower agreement) (collateralAmount agreement) w
              else Inr w),
        (\<lambda>w. if reputationContract (p2pLending w) \<noteq> 0
              then recordLoanPaymentOutcome (p2pLendingAddr w) agreementId
                     (LoanAgreement.borrower agreement) (LoanAgreement.lender agreement)
                     (principalAmount agreement) outcomeType
                     originalModificationTypeBeforeRepay wasModificationApprovedBeforeRepay w
              else Inr w)
      ] w)"

text \<open>\<open>repayLoan\<close>, called by \<open>sender\<close> at time \<open>now\<close>.\<close>

definition repayLoan :: "address \<Rightarrow> nat \<Rightarrow> bytes32 \<Rightarrow> nat \<Rightarrow> World \<Rightarrow> World result" where
  "repayLoan sender now agreementId paymentAmount w =
     (let agreement = agreementOf w agreementId in
      if \<not> (LoanAgreement.borrower agreement = sender)
        then Inl (Revert ''P2PL: Not borrower'')
      else if \<not> (status agreement = Active \<or> status agreement = Overdue
                 \<or> status agreement = Active_PartialPaymentAgreed)
        then Inl (Revert ''P2PL: Loan not in repayable state'')
      else if \<not> (paymentAmount > 0)
        then Inl (Revert ''P2PL: Payment amount must be > 0'')
      else (case calculateTotalDue agreement of
        Inl e \<Rightarrow> Inl e
      | Inr totalDue \<Rightarrow>
        (if \<not> (amountPaid agreement \<le> totalDue) then Inl Panic
         else
         (let remainingDueBeforePayment = totalDue - amountPaid agreement in
          if \<not> (paymentAmount \<le> remainingDueBeforePayment)
            then Inl (Revert ''P2PL: Payment exceeds remaining due'')
          else
          (let originalModificationTypeBeforeRepay = requestedModificationType agreement;
               wasModificationApprovedBeforeRepay = modificationApprovedByLender agreement;
               agreedPartialPaymentValue = requestedModificationValue agreement
           in (case tokenTransferFrom (loanToken agreement) (p2pLendingAddr w) sender
                     (LoanAgreement.lender agreement) paymentAmount w of
             Inl e \<Rightarrow> Inl e
           | Inr w1 \<Rightarrow>
             (if \<not> (amountPaid (agreementOf w1 agreementId) + paymentAmount \<le> MAX_UINT256) then Inl Panic
              else
              (let w2 = setAgreement agreementId (\<lambda>a. a\<lparr>amountPaid := amountPaid a + paymentAmount\<rparr>) w1;
                   w3 = (if status (agreementOf w2 agreementId) = Active_PartialPaymentAgreed
                            \<and> paymentAmount = agreedPartialPaymentValue
                         then setAgreement agreementId (\<lambda>a. a\<lparr>modificationApprovedByLender := False,
                                requestedModificationValue := 0\<rparr>) w2
                         else w2);
                   newStatus = (if status (agreementOf w2 agreementId) = Active_PartialPaymentAgreed then
                                  (if paymentAmount = agreedPartialPaymentValue
                                   then statusAfterPayment now totalDue (agreementOf w3 agreementId)
                                   else Active_PartialPaymentAgreed)
                                else statusAfterPayment now totalDue (agreementOf w3 agreementId))
               in (case (if newStatus = Repaid
                         then settleRepaid now agreementId originalModificationTypeBeforeRepay
                                wasModificationApprovedBeforeRepay w3
                         else Inr w3) of
                 Inl e \<Rightarrow> Inl e
               | Inr w4 \<Rightarrow> Inr (setAgreement agreementId (\<lambda>a. a\<lparr>status := newStatus\<rparr>) w4))))))))))"

text \<open>
  The slash computed in the loop of \<open>handleP2PDefault\<close> for a snapshot entry with a
  positive stake (\<open>tenPercentSlashBasis = 1000\<close>).
\<close>

definition slashAmountFor :: "nat \<Rightarrow> nat result" where
  "slashAmountFor staked =
     (if \<not> (staked * 1000 \<le> MAX_UINT256) then Inl Panic
      else
        let slashAmount0 = (staked * 1000) div BASIS_POINTS;
            slashAmount1 = (if slashAmount0 = 0 \<and> staked > 0 then 1 else slashAmount0);
            slashAmount2 = (if slashAmount1 > staked then staked else slashAmount1)
        in Inr slashAmount2)"

text \<open>The loop of \<open>handleP2PDefault\<close> over the snapshot \<open>activeVouches\<close> (a memory copy).\<close>

fun slashVouches :: "address \<Rightarrow> address \<Rightarrow> Vouch list \<Rightarrow> World \<Rightarrow> World result" where
  "slashVouches b l [] w = Inr w"
| "slashVouches b l (currentVouch # rest) w =
     (if Vouch.isActive currentVouch \<and> stakedAmount currentVouch > 0 then
        (case slashAmountFor (stakedAmount currentVouch) of
           Inl e \<Rightarrow> Inl e
         | Inr slashAmount \<Rightarrow>
             if slashAmount > 0 then
               (case slashVouchAndReputation (p2pLendingAddr w) (voucher currentVouch) b slashAmount l w of
                  Inl e \<Rightarrow> Inl e
                | Inr w' \<Rightarrow> slashVouches b l rest w')
             else slashVouches b l rest w)
      else slashVouches b l rest w)"

text \<open>\<open>handleP2PDefault\<close>, called by \<open>sender\<close> (anyone) at time \<open>now\<close>.\<close>

definition handleP2PDefault :: "address \<Rightarrow> nat \<Rightarrow> bytes32 \<Rightarrow> World \<Rightarrow> World result" where
  "handleP2PDefault sender now agreementId w =
     (let agreement = agreementOf w agreementId in
      if \<not> (LoanAgreement.lender agreement \<noteq> 0)
        then Inl (Revert ''P2PL: Agreement does not exist'')
      else if \<not> (status agreement = Active)
        then Inl (Revert ''P2PL: Loan not active for default'')
      else if \<not> (now > dueDate agreement)
        then Inl (Revert ''P2PL: Loan not yet overdue'')
      else case calculateTotalDue agreement of
        Inl e \<Rightarrow> Inl e
      | Inr totalDue \<Rightarrow>
        if \<not> (amountPaid agreement < totalDue)
          then Inl (Revert ''P2PL: Loan already fully paid, cannot default'')
        else run [
          (\<lambda>w. Inr (setAgreement agreementId (\<lambda>a. a\<lparr>status := Defaulted\<rparr>) w)),
          (\<lambda>w. if collateralAmount agreement > 0 \<and> LoanAgreement.collateralToken agreement \<noteq> 0
                then tokenTransfer (LoanAgreement.collateralToken agreement) (p2pLendingAddr w)
                       (LoanAgreement.lender agreement) (collateralAmount agreement) w
                else Inr w),
          (\<lambda>w. if reputationContract (p2pLending w) \<noteq> 0
                then run [
                  updateReputationOnLoanDefault (p2pLendingAddr w) (LoanAgreement.borrower agreement),
                  (\<lambda>w. slashVouches (LoanAgreement.borrower agreement) (LoanAgreement.lender agreement)
                          (getActiveVouchesForBorrower w (LoanAgreement.borrower agreement)) w)
                ] w
                else Inr w)
        ] w)"

text \<open>\<open>requestPaymentModification\<close>, called by \<open>sender\<close>.\<close>

definition requestPaymentModification :: "address \<Rightarrow> bytes32 \<Rightarrow> PaymentModificationType \<Rightarrow> nat
    \<Rightarrow> World \<Rightarrow> World result" where
  "requestPaymentModification sender agreementId modificationType val w =
     (let agreement = agreementOf w agreementId in
      if \<not> (LoanAgreement.borrower agreement = sender)
        then Inl (Revert ''P2PL: Not borrower'')
      else if \<not> (status agreement = Active \<or> status agreement = Overdue)
        then Inl (Revert ''P2PL: Loan not active/overdue'')
      else if \<not> (val > 0)
        then Inl (Revert ''P2PL: Modification value must be > 0'')
      else if modificationType = DueDateExtension \<and> \<not> (val > dueDate agreement)
        then Inl (Revert ''P2PL: New due date must be later'')
      else Inr (setAgreement agreementId (\<lambda>a. a\<lparr>
             requestedModificationType := modificationType,
             requestedModificationValue := val,
             modificationApprovedByLender := False,
             status := PendingModificationApproval\<rparr>) w))"

text \<open>\<open>respondToPaymentModification\<close>, called by \<open>sender\<close> at time \<open>now\<close>.\<close>

definition respondToPaymentModification :: "address \<Rightarrow> nat \<Rightarrow> bytes32 \<Rightarrow> bool \<Rightarrow> World \<Rightarrow> World result" where
  "respondToPaymentModification sender now agreementId approved w =
     (let agreement = agreementOf w agreementId in
      if \<not> (LoanAgreement.lender agreement = sender)
        then Inl (Revert ''P2PL: Not lender'')
      else if \<not> (status agreement = PendingModificationApproval)
        then Inl (Revert ''P2PL: No pending modification'')
      else
        let originalType = requestedModificationType agreement;
            originalValue = requestedModificationValue agreement
        in
        if approved then
          (if originalType = DueDateExtension then
             Inr (setAgreement agreementId (\<lambda>a. a\<lparr>
               modificationApprovedByLender := True,
               dueDate := originalValue,
               status := (if now < originalValue then Active else Overdue)\<rparr>) w)
           else if originalType = PartialPaymentAgreement then
             Inr (setAgreement agreementId (\<lambda>a. a\<lparr>
               modificationApprovedByLender := True,
               status := Active_PartialPaymentAgreed\<rparr>) w)
           else
             Inr (setAgreement agreementId (\<lambda>a. a\<lparr>modificationApprovedByLender := True\<rparr>) w))
        else
          Inr (setAgreement agreementId (\<lambda>a. a\<lparr>
            modificationApprovedByLender := False,
            status := (if now < dueDate a then Active else Overdue)\<rparr>) w))"

text \<open>
  \<open>setP2PLendingContractAddress\<close> of Reputation; \<open>isOwner\<close> says whether the caller is
  the owner (OpenZeppelin's \<open>onlyOwner\<close>, whose error carries the caller's address).
\<close>

definition setP2PLendingContractAddress :: "bool \<Rightarrow> address \<Rightarrow> World \<Rightarrow> World result" where
  "setP2PLendingContractAddress isOwner p2pLendingAddress w =
     (if \<not> isOwner then Inl (Revert ''OwnableUnauthorizedAccount'')
      else if \<not> (p2pLendingAddress \<noteq> 0)
        then Inl (Revert ''Invalid P2PLending contract address'')
      else Inr (w\<lparr>reputation := (reputation w)\<lparr>p2pLendingContractAddress := p2pLendingAddress\<rparr>\<rparr>))"

text \<open>A transaction commits its result or, when it reverts, leaves the state as it was.\<close>

definition commit :: "('s \<Rightarrow> 's result) \<Rightarrow> 's \<Rightarrow> 's" where
  "commit tx s = (case tx s of Inl e \<Rightarrow> s | Inr s' \<Rightarrow> s')"

text \<open>\<open>setReputationContractAddress\<close> of P2PLending (\<open>onlyOwner\<close>).\<close>

definition setReputationContractAddress :: "bool \<Rightarrow> address \<Rightarrow> World \<Rightarrow> World result" where
  "setReputationContractAddress isOwner newReputationContractAddress w =
     (if \<not> isOwner then Inl (Revert ''OwnableUnauthorizedAccount'')
      else if \<not> (newReputationContractAddress \<noteq> 0)
        then Inl (Revert ''P2PL: Invalid Reputation contract address'')
      else Inr (w\<lparr>p2pLending := (p2pLending w)\<lparr>reputationContract := newReputationContractAddress\<rparr>\<rparr>))"

section \<open>Transactions and reachable states\<close>

text \<open>
  The external calls of P2PLending that change its state, each with its caller and, where
  the function reads \<open>block.timestamp\<close>, the time of the block.
\<close>

datatype call =
    CreateLoanOffer address nat nat address nat nat nat address
  | CreateLoanRequest address nat nat address nat nat nat address
  | AcceptLoanOffer address nat bytes32 nat address
  | FundLoanRequest address nat bytes32
  | RepayLoan address nat bytes32 nat
  | HandleP2PDefault address nat bytes32
  | RequestPaymentModification address bytes32 PaymentModificationType nat
  | RespondToPaymentModification address nat bytes32 bool
  | SetReputationContractAddress bool address

definition dropId :: "(bytes32 \<times> World) result \<Rightarrow> World result" where
  "dropId r = (case r of Inl e \<Rightarrow> Inl e | Inr (i, w) \<Rightarrow> Inr w)"

fun exec :: "call \<Rightarrow> World \<Rightarrow> World result" where
  "exec (CreateLoanOffer sender now a t r d ca ct) w = dropId (createLoanOffer sender now a t r d ca ct w)"
| "exec (CreateLoanRequest sender now a t r d ca ct) w = dropId (createLoanRequest sender now a t r d ca ct w)"
| "exec (AcceptLoanOffer sender now i ca ct) w = dropId (acceptLoanOffer sender now i ca ct w)"
| "exec (FundLoanRequest sender now i) w = dropId (fundLoanRequest sender now i w)"
| "exec (RepayLoan sender now i p) w = repayLoan sender now i p w"
| "exec (HandleP2PDefault sender now i) w = handleP2PDefault sender now i w"
| "exec (RequestPaymentModification sender i ty v) w = requestPaymentModification sender i ty v w"
| "exec (RespondToPaymentModification sender now i ap) w = respondToPaymentModification sender now i ap w"
| "exec (SetReputationContractAddress isOwner a) w = setReputationContractAddress isOwner a w"

text \<open>Storage that was never written reads as zero: the first value of each enum.\<close>

definition zeroAgreement :: LoanAgreement where
  "zeroAgreement = \<lparr>
     agreement_id = Zero32, originalOfferId = Zero32, originalRequestId = Zero32,
     lender = 0, borrower = 0, principalAmount = 0, loanToken = 0, interestRateBPS = 0,
     durationSeconds = 0, collateralAmount = 0, collateralToken = 0, startTime = 0,
     dueDate = 0, amountPaid = 0, status = Active,
     requestedModificationType = NoModification, requestedModificationValue = 0,
     modificationApprovedByLender = False\<rparr>"

definition zeroOffer :: LoanOffer where
  "zeroOffer = \<lparr>offer_id = Zero32, lender = 0, amount = 0, token = 0, interestRateBPS = 0,
     durationSeconds = 0, requiredCollateralAmount = 0, collateralToken = 0,
     isActive = False, isFulfilled = False\<rparr>"

definition zeroRequest :: LoanRequest where
  "zeroRequest = \<lparr>request_id = Zero32, borrower = 0, amount = 0, token = 0,
     proposedInterestRateBPS = 0, proposedDurationSeconds = 0, offeredCollateralAmount = 0,
     collateralToken = 0, isActive = False, isFulfilled = False\<rparr>"

definition zeroProfile :: ReputationProfile where
  "zeroProfile = \<lparr>userAddress = 0, loansTaken = 0, loansGiven = 0, loansRepaidOnTime = 0,
     loansRepaidLateGrace = 0, loansDefaulted = 0, totalValueBorrowed = 0, totalValueLent = 0,
     currentReputationScore = 0, vouchingStakeAmount = 0, timesVouchedForOthers = 0,
     timesDefaultedAsVoucher = 0, modificationsApprovedByLender = 0,
     modificationsRejectedByLender = 0\<rparr>"

definition zeroVouch :: Vouch where
  "zeroVouch = \<lparr>voucher = 0, borrower = 0, tokenAddress = 0, stakedAmount = 0, isActive = False\<rparr>"

text \<open>P2PLending as its constructor leaves it, wired to the Reputation contract at \<open>rc\<close>.\<close>

definition freshLending :: "address \<Rightarrow> P2PLending" where
  "freshLending rc = \<lparr>
     loanOffers = (\<lambda>_. zeroOffer),
     userLoanOfferIds = (\<lambda>_. []),
     loanRequests = (\<lambda>_. zeroRequest),
     userLoanRequestIds = (\<lambda>_. []),
     loanAgreements = (\<lambda>_. zeroAgreement),
     userLoanAgreementIdsAsLender = (\<lambda>_. []),
     userLoanAgreementIdsAsBorrower = (\<lambda>_. []),
     reputationContract = rc\<rparr>"

definition freshReputation :: Reputation where
  "freshReputation = \<lparr>
     userReputations = (\<lambda>_. zeroProfile),
     activeVouches = (\<lambda>_ _. zeroVouch),
     userVouchesGiven = (\<lambda>_. []),
     userVouchesReceived = (\<lambda>_. []),
     p2pLendingContractAddress = 0\<rparr>"

text \<open>
  The states P2PLending can be in: it starts fresh; its own calls change it; everything
  else in the world (the registry, Reputation, the token ledgers) may change in any way
  between two of its calls.
\<close>

inductive reachable :: "World \<Rightarrow> bool" where
  deployed: "p2pLending w = freshLending rc \<Longrightarrow> reachable w"
| environment: "reachable w \<Longrightarrow> p2pLending w' = p2pLending w \<Longrightarrow> reachable w'"
| transaction: "reachable w \<Longrightarrow> exec c w = Inr w' \<Longrightarrow> reachable w'"

section \<open>The spec's formulas\<close>

text \<open>
  The spec's outcome classifier (section 4.4), rule by rule, first match wins. It is
  written from the spec's words, to be compared with \<open>classifyOutcome\<close>.
\<close>

definition firstMatchingRule :: "nat \<Rightarrow> nat \<Rightarrow> PaymentModificationType \<Rightarrow> bool \<Rightarrow> PaymentOutcomeType" where
  "firstMatchingRule now due_date modification_type_before lender_approved_before =
     (if now \<le> due_date \<and> lender_approved_before \<and> modification_type_before = DueDateExtension
        then OnTimeExtended
      else if now \<le> due_date \<and> lender_approved_before \<and> modification_type_before = PartialPaymentAgreement
        then PartialAgreementMetAndRepaid
      else if now \<le> due_date
        then OnTimeOriginal
      else if now > due_date \<and> lender_approved_before \<and> modification_type_before = DueDateExtension
        then LateExtended
      else LateGraceOriginal)"

text \<open>The spec's \<open>total_due = principal + principal * rate_bps / 10_000\<close>, on unbounded naturals.\<close>

definition total_due :: "LoanAgreement \<Rightarrow> nat" where
  "total_due a = principalAmount a + principalAmount a * LoanAgreement.interestRateBPS a div 10000"

text \<open>The spec's slash amount \<open>min(s, max(1, s * 1000 / 10_000))\<close>.\<close>

definition slash_amount :: "nat \<Rightarrow> nat" where
  "slash_amount s = min s (max 1 (s * 1000 div 10000))"

section \<open>Invariant of loan agreements\<close>

text \<open>
  What holds of every loan agreement in every reachable state: an approval refers to a
  request of some type unless the response is still pending; the amount paid is at most
  the total due; a pending request for an extension proposes a later due date.
\<close>

definition agreement_inv :: "LoanAgreement \<Rightarrow> bool" where
  "agreement_inv a \<longleftrightarrow>
     (modificationApprovedByLender a \<longrightarrow>
        requestedModificationType a \<noteq> NoModification \<or> status a = PendingModificationApproval)
   \<and> amountPaid a \<le> total_due a
   \<and> (status a = PendingModificationApproval \<and> requestedModificationType a = DueDateExtension
        \<longrightarrow> dueDate a < requestedModificationValue a)"

text \<open>Kinds of calls: forming an agreement, repaying, responding to the request on agreement \<open>i\<close>.\<close>

fun formsAgreement :: "call \<Rightarrow> bool" where
  "formsAgreement (AcceptLoanOffer sender now i ca ct) = True"
| "formsAgreement (FundLoanRequest sender now i) = True"
| "formsAgreement c = False"

fun isRepay :: "call \<Rightarrow> bool" where
  "isRepay (RepayLoan sender now i p) = True"
| "isRepay c = False"

fun respondsTo :: "bytes32 \<Rightarrow> call \<Rightarrow> bool" where
  "respondsTo i (RespondToPaymentModification sender now j ap) = (j = i)"
| "respondsTo i c = False"

section \<open>Concrete scenarios\<close>

text \<open>
  A deployment like the one of the repository's tests: three registered users, one
  18-decimal token with minted balances and approvals, Reputation configured with the
  address of P2PLending.
\<close>

definition theLender :: address where "theLender = 4"
definition theBorrower :: address where "theBorrower = 1"
definition theVoucher :: address where "theVoucher = 3"
definition mockDai :: address where "mockDai = 256"
definition reputationAt :: address where "reputationAt = 512"
definition lendingAt :: address where "lendingAt = 513"
definition oneDay :: nat where "oneDay = 86400"

definition registry0 :: UserRegistry where
  "registry0 = \<lparr>
     userProfiles = (userProfiles emptyRegistry)
       (theBorrower := \<lparr>isRegistered = True, name = ''Borrower'', registrationTime = 1\<rparr>,
        theLender := \<lparr>isRegistered = True, name = ''Lender'', registrationTime = 1\<rparr>,
        theVoucher := \<lparr>isRegistered = True, name = ''Voucher'', registrationTime = 1\<rparr>),
     registeredUsers = [theBorrower, theLender, theVoucher],
     totalUsers = 3\<rparr>"

definition ledgers0 :: ledgers where
  "ledgers0 = (\<lambda>_. \<lparr>balanceOf = (\<lambda>_. 0), allowance = (\<lambda>_ _. 0)\<rparr>)
     (mockDai := \<lparr>
        balanceOf = (\<lambda>_. 0)(theLender := 10000 * 10 ^ 18, theBorrower := 1000 * 10 ^ 18,
                       theVoucher := 500 * 10 ^ 18),
        allowance = (\<lambda>_ _. 0)(theLender := (\<lambda>_. 0)(lendingAt := 10 ^ 30),
                       theBorrower := (\<lambda>_. 0)(lendingAt := 10 ^ 30),
                       theVoucher := (\<lambda>_. 0)(reputationAt := 10 ^ 30))\<rparr>)"

definition world0 :: World where
  "world0 = \<lparr>
     userRegistry = registry0,
     reputation = freshReputation\<lparr>p2pLendingContractAddress := lendingAt\<rparr>,
     p2pLending = freshLending reputationAt,
     erc20 = ledgers0,
     reputationAddr = reputationAt,
     p2pLendingAddr = lendingAt\<rparr>"

text \<open>
  An offer of 100 tokens at 1000 bps for 7 days, created and accepted at time 1000
  without collateral (the tests' default agreement); total due is 110 tokens.
\<close>

definition offer100 :: bytes32 where
  "offer100 = Keccak7 theLender (100 * 10 ^ 18) mockDai 1000 (7 * oneDay) 1000 0"

definition agreement100 :: bytes32 where
  "agreement100 = Keccak3 offer100 theBorrower 1000"

definition formAgreement100 :: "(World \<Rightarrow> World result) list" where
  "formAgreement100 = [
     exec (CreateLoanOffer theLender 1000 (100 * 10 ^ 18) mockDai 1000 (7 * oneDay) 0 0),
     exec (AcceptLoanOffer theBorrower 1000 offer100 0 0)]"

text \<open>The agreement is formed and never modified; the borrower is about to repay.\<close>

definition worldFormed :: World where
  "worldFormed = projr (run formAgreement100 world0)"

text \<open>A partial repayment one day after the due date: the agreement becomes Overdue.\<close>

definition worldOverdue :: World where
  "worldOverdue = projr (run (formAgreement100 @ [
     exec (RepayLoan theBorrower (1000 + 8 * oneDay) agreement100 (55 * 10 ^ 18))]) world0)"

text \<open>
  The voucher vouches 50 tokens for the borrower, removes the vouch and vouches 50
  tokens again; the loan is not repaid.
\<close>

definition worldRevouched :: World where
  "worldRevouched = projr (run (formAgreement100 @ [
     addVouch theVoucher theBorrower (50 * 10 ^ 18) mockDai,
     removeVouch theVoucher theBorrower,
     addVouch theVoucher theBorrower (50 * 10 ^ 18) mockDai]) world0)"

text \<open>The same with a single vouch (the tests' default case).\<close>

definition worldVouched :: World where
  "worldVouched = projr (run (formAgreement100 @ [
     addVouch theVoucher theBorrower (50 * 10 ^ 18) mockDai]) world0)"

text \<open>
  Scenario S3: an offer of 70 tokens for 7 days; the borrower asks at day 6 for an
  extension to day 14.
\<close>

definition offer70 :: bytes32 where
  "offer70 = Keccak7 theLender (70 * 10 ^ 18) mockDai 1000 (7 * oneDay) 1000 0"

definition agreement70 :: bytes32 where
  "agreement70 = Keccak3 offer70 theBorrower 1000"

definition worldExtensionRequested :: World where
  "worldExtensionRequested = projr (run [
     exec (CreateLoanOffer theLender 1000 (70 * 10 ^ 18) mockDai 1000 (7 * oneDay) 0 0),
     exec (AcceptLoanOffer theBorrower 1000 offer70 0 0),
     exec (RequestPaymentModification theBorrower agreement70 DueDateExtension (1000 + 14 * oneDay))]
     world0)"

definition worldExtensionApproved :: World where
  "worldExtensionApproved = projr (run [
     exec (RespondToPaymentModification theLender (1000 + 6 * oneDay) agreement70 True)]
     worldExtensionRequested)"

text \<open>
  Scenario S5: an offer of 90 tokens for 10 days; the borrower asks for a partial payment
  agreement of 30 tokens, the lender approves, the borrower pays exactly 30 tokens.
\<close>

definition offer90 :: bytes32 where
  "offer90 = Keccak7 theLender (90 * 10 ^ 18) mockDai 1000 (10 * oneDay) 1000 0"

definition agreement90 :: bytes32 where
  "agreement90 = Keccak3 offer90 theBorrower 1000"

definition worldPartialAgreed :: World where
  "worldPartialAgreed = projr (run [
     exec (CreateLoanOffer theLender 1000 (90 * 10 ^ 18) mockDai 1000 (10 * oneDay) 0 0),
     exec (AcceptLoanOffer theBorrower 1000 offer90 0 0),
     exec (RequestPaymentModification theBorrower agreement90 PartialPaymentAgreement (30 * 10 ^ 18)),
     exec (RespondToPaymentModification theLender (1000 + oneDay) agreement90 True)] world0)"

definition worldPartialPaid :: World where
  "worldPartialPaid = projr (run [
     exec (RepayLoan theBorrower (1000 + 2 * oneDay) agreement90 (30 * 10 ^ 18))] worldPartialAgreed)"

definition worldS5Settled :: World where
  "worldS5Settled = projr (run [
     exec (RepayLoan theBorrower (1000 + 5 * oneDay) agreement90 (69 * 10 ^ 18))] worldPartialPaid)"

text \<open>Scenario S1 on the 100-token agreement: the borrower repays the 110 tokens at day 6.\<close>

definition worldRepaid :: World where
  "worldRepaid = projr (run [
     exec (RepayLoan theBorrower (1000 + 6 * oneDay) agreement100 (110 * 10 ^ 18))] worldFormed)"

text \<open>Anyone (here the lender) calls \<open>handleP2PDefault\<close> at day 8.\<close>

definition worldRevouchedDefaulted :: World where
  "worldRevouchedDefaulted = projr (run [
     exec (HandleP2PDefault theLender (1000 + 8 * oneDay) agreement100)] worldRevouched)"

definition worldVouchedDefaulted :: World where
  "worldVouchedDefaulted = projr (run [
     exec (HandleP2PDefault theLender (1000 + 8 * oneDay) agreement100)] worldVouched)"

text \<open>The vouch of the voucher for the borrower as \<open>addVouch\<close> records it.\<close>

definition vouch50 :: Vouch where
  "vouch50 = \<lparr>voucher = theVoucher, borrower = theBorrower, tokenAddress = mockDai,
     stakedAmount = 50 * 10 ^ 18, isActive = True\<rparr>"

text \<open>On the overdue agreement the borrower asks for an extension to day 14.\<close>

definition worldOverduePending :: World where
  "worldOverduePending = projr (run [
     exec (RequestPaymentModification theBorrower agreement100 DueDateExtension (1000 + 14 * oneDay))]
     worldOverdue)"

text \<open>Scenario S3, end: the borrower repays the 77 tokens at day 13.\<close>

definition worldExtensionRepaid :: World where
  "worldExtensionRepaid = projr (run [
     exec (RepayLoan theBorrower (1000 + 13 * oneDay) agreement70 (77 * 10 ^ 18))] worldExtensionApproved)"

text \<open>The registry after one registration at time 7.\<close>

definition registryAlice :: UserRegistry where
  "registryAlice = emptyRegistry\<lparr>
     userProfiles := (userProfiles emptyRegistry)(theBorrower :=
       \<lparr>isRegistered = True, name = ''Alice'', registrationTime = 7\<rparr>),
     registeredUsers := registeredUsers emptyRegistry @ [theBorrower],
     totalUsers := totalUsers emptyRegistry + 1\<rparr>"

text \<open>While the extension request of scenario S3 is pending, the borrower files a loan request.\<close>

definition worldExtensionRequestedMore :: World where
  "worldExtensionRequestedMore = projr (run [
     exec (CreateLoanRequest theBorrower (1000 + 6 * oneDay) (10 * 10 ^ 18) mockDai 500 oneDay 0 0)]
     worldExtensionRequested)"

section \<open>Frame and shape lemmas\<close>

lemma run_preserves:
  assumes "run fs s = Inr s'" and "\<And>f t t'. f \<in> set fs \<Longrightarrow> f t = Inr t' \<Longrightarrow> g t' = g t"
  shows "g s' = g s"
  using assms
proof (induction fs arbitrary: s)
  case Nil
  then show ?case by simp
next
  case (Cons f fs)
  from Cons.prems(1) obtain t where ft: "f s = Inr t" and rest: "run fs t = Inr s'"
    by (auto split: sum.splits)
  have step: "g t' = g t" if "h \<in> set fs" "h t = Inr t'" for h t t'
    using Cons.prems(2) [of h t t'] that by simp
  have "g s' = g t" using Cons.IH [OF rest step] .
  moreover have "g t = g s" using Cons.prems(2) [of f s t] ft by simp
  ultimately show ?case by simp
qed

lemma setProfile_lending [simp]: "p2pLending (setProfile a f w) = p2pLending w"
  by (simp add: setProfile_def)

lemma setVouch_lending [simp]: "p2pLending (setVouch v b f w) = p2pLending w"
  by (simp add: setVouch_def)

lemma uintAdd_lending: "uintAdd g u a n w = Inr w' \<Longrightarrow> p2pLending w' = p2pLending w"
  by (auto simp: uintAdd_def split: if_splits)

lemma uintSub_lending: "uintSub g u a n w = Inr w' \<Longrightarrow> p2pLending w' = p2pLending w"
  by (auto simp: uintSub_def split: if_splits)

lemma scoreAdd_lending: "scoreAdd a d w = Inr w' \<Longrightarrow> p2pLending w' = p2pLending w"
  by (auto simp: scoreAdd_def split: if_splits)

lemma initialize_lending:
  "initializeReputationProfileIfNotExists a w = Inr w' \<Longrightarrow> p2pLending w' = p2pLending w"
  by (auto simp: initializeReputationProfileIfNotExists_def split: if_splits)

lemma tokenTransfer_lending: "tokenTransfer t f x n w = Inr w' \<Longrightarrow> p2pLending w' = p2pLending w"
  by (auto simp: tokenTransfer_def split: sum.splits)

lemma tokenTransferFrom_lending: "tokenTransferFrom t sp f x n w = Inr w' \<Longrightarrow> p2pLending w' = p2pLending w"
  by (auto simp: tokenTransferFrom_def split: sum.splits)

lemma skip_lending: "skip w = Inr w' \<Longrightarrow> p2pLending w' = p2pLending w"
  by (simp add: skip_def)

lemma borrowerOutcomeCounter_lending:
  "borrowerOutcomeCounter oc b w = Inr w' \<Longrightarrow> p2pLending w' = p2pLending w"
  by (auto simp: borrowerOutcomeCounter_def skip_def split: if_splits dest: uintAdd_lending)

lemma lenderModificationCounter_lending:
  "lenderModificationCounter mt ap l w = Inr w' \<Longrightarrow> p2pLending w' = p2pLending w"
  by (auto simp: lenderModificationCounter_def skip_def split: if_splits dest: uintAdd_lending)

lemma recordLoanPaymentOutcome_lending:
  assumes "recordLoanPaymentOutcome sender i b l p oc mt ap w = Inr w'"
  shows "p2pLending w' = p2pLending w"
proof -
  let ?fs = "[
        initializeReputationProfileIfNotExists b,
        initializeReputationProfileIfNotExists l,
        uintAdd loansTaken loansTaken_update b 1,
        uintAdd totalValueBorrowed totalValueBorrowed_update b p,
        borrowerOutcomeCounter oc b,
        (if borrowerRepChange oc \<noteq> 0 then scoreAdd b (borrowerRepChange oc) else skip),
        lenderModificationCounter mt ap l,
        uintAdd loansGiven loansGiven_update l 1,
        uintAdd totalValueLent totalValueLent_update l p,
        (if lenderRepChange oc mt ap \<noteq> 0
           then scoreAdd l (lenderRepChange oc mt ap)
         else skip)]"
  from assms have r: "run ?fs w = Inr w'"
    unfolding recordLoanPaymentOutcome_def by (simp del: run.simps split: if_splits)
  have fs: "\<And>f t t'. f \<in> set ?fs \<Longrightarrow> f t = Inr t' \<Longrightarrow> p2pLending t' = p2pLending t"
    by (auto split: if_splits
        dest: uintAdd_lending scoreAdd_lending initialize_lending skip_lending
          borrowerOutcomeCounter_lending lenderModificationCounter_lending)
  show ?thesis using run_preserves [OF r fs] by simp
qed

lemma updateReputationOnLoanDefault_lending:
  assumes "updateReputationOnLoanDefault sender b w = Inr w'"
  shows "p2pLending w' = p2pLending w"
proof -
  let ?fs = "[
        initializeReputationProfileIfNotExists b,
        uintAdd loansTaken loansTaken_update b 1,
        uintAdd loansDefaulted loansDefaulted_update b 1,
        scoreAdd b REPUTATION_POINTS_DEFAULTED]"
  from assms have r: "run ?fs w = Inr w'"
    unfolding updateReputationOnLoanDefault_def by (simp del: run.simps split: if_splits)
  have fs: "\<And>f t t'. f \<in> set ?fs \<Longrightarrow> f t = Inr t' \<Longrightarrow> p2pLending t' = p2pLending t"
    by (auto dest: uintAdd_lending scoreAdd_lending initialize_lending)
  show ?thesis using run_preserves [OF r fs] by simp
qed

lemma slashVouchAndReputation_lending:
  assumes "slashVouchAndReputation sender v b n l w = Inr w'"
  shows "p2pLending w' = p2pLending w"
proof -
  let ?fs = "[
        initializeReputationProfileIfNotExists v,
        (\<lambda>w. Inr (setVouch v b (\<lambda>x. x\<lparr>stakedAmount := stakedAmount x - n\<rparr>) w)),
        scoreAdd v REPUTATION_POINTS_VOUCH_DEFAULTED_VOUCHER,
        uintSub vouchingStakeAmount vouchingStakeAmount_update v n,
        uintAdd timesDefaultedAsVoucher timesDefaultedAsVoucher_update v 1,
        (\<lambda>w. tokenTransfer (tokenAddress (vouchOf w v b))
                (reputationAddr w) l n w),
        (\<lambda>w. if stakedAmount (vouchOf w v b) = 0
              then Inr (setVouch v b (\<lambda>x. x\<lparr>Vouch.isActive := False\<rparr>) w)
              else Inr w)]"
  from assms have r: "run ?fs w = Inr w'"
    unfolding slashVouchAndReputation_def by (simp del: run.simps split: if_splits)
  have fs: "\<And>f t t'. f \<in> set ?fs \<Longrightarrow> f t = Inr t' \<Longrightarrow> p2pLending t' = p2pLending t"
    by (auto split: if_splits
        dest: uintAdd_lending uintSub_lending scoreAdd_lending initialize_lending tokenTransfer_lending)
  show ?thesis using run_preserves [OF r fs] by simp
qed

lemma slashVouches_lending:
  "slashVouches b l vs w = Inr w' \<Longrightarrow> p2pLending w' = p2pLending w"
proof (induction vs arbitrary: w)
  case Nil
  then show ?case by simp
next
  case (Cons v vs)
  show ?case
  proof (cases "Vouch.isActive v \<and> stakedAmount v > 0")
    case False
    with Cons.prems have "slashVouches b l vs w = Inr w'" by auto
    then show ?thesis by (rule Cons.IH)
  next
    case True
    with Cons.prems obtain n where n: "slashAmountFor (stakedAmount v) = Inr n"
      by (auto split: sum.splits)
    show ?thesis
    proof (cases "n > 0")
      case False
      with True n Cons.prems have "slashVouches b l vs w = Inr w'" by auto
      then show ?thesis by (rule Cons.IH)
    next
      case pos: True
      with True n Cons.prems obtain w1 where
        s: "slashVouchAndReputation (p2pLendingAddr w) (voucher v) b n l w = Inr w1"
        and r: "slashVouches b l vs w1 = Inr w'"
        by (auto split: sum.splits)
      from Cons.IH [OF r] slashVouchAndReputation_lending [OF s] show ?thesis by simp
    qed
  qed
qed

lemma settleRepaid_lending:
  assumes "settleRepaid now i mt ap w = Inr w'"
  shows "p2pLending w' = p2pLending w"
proof -
  let ?a = "agreementOf w i"
  let ?fs = "[
        (\<lambda>w. if collateralAmount ?a > 0 \<and> LoanAgreement.collateralToken ?a \<noteq> 0
              then tokenTransfer (LoanAgreement.collateralToken ?a) (p2pLendingAddr w)
                     (LoanAgreement.borrower ?a) (collateralAmount ?a) w
              else Inr w),
        (\<lambda>w. if reputationContract (p2pLending w) \<noteq> 0
              then recordLoanPaymentOutcome (p2pLendingAddr w) i
                     (LoanAgreement.borrower ?a) (LoanAgreement.lender ?a)
                     (principalAmount ?a) (classifyOutcome now (dueDate ?a) mt ap)
                     mt ap w
              else Inr w)]"
  from assms have r: "run ?fs w = Inr w'"
    unfolding settleRepaid_def by (simp del: run.simps add: Let_def)
  have fs: "\<And>f t t'. f \<in> set ?fs \<Longrightarrow> f t = Inr t' \<Longrightarrow> p2pLending t' = p2pLending t"
    by (auto split: if_splits dest: tokenTransfer_lending recordLoanPaymentOutcome_lending)
  show ?thesis using run_preserves [OF r fs] by simp
qed

lemma agreementOf_setAgreement [simp]:
  "agreementOf (setAgreement i f w) j = (if j = i then f (agreementOf w i) else agreementOf w j)"
  by (simp add: agreementOf_def setAgreement_def)

lemma agreementOf_cong: "p2pLending w' = p2pLending w \<Longrightarrow> agreementOf w' j = agreementOf w j"
  by (simp add: agreementOf_def)

lemma calculateTotalDue_total_due:
  "calculateTotalDue a = Inr td \<Longrightarrow> td = total_due a"
  by (auto simp: calculateTotalDue_def calculateInterest_def total_due_def BASIS_POINTS_def
      split: sum.splits if_splits)

text \<open>What a successful repayLoan leaves in the agreement.\<close>

lemma repayLoan_shape:
  assumes "repayLoan sender now i pay w = Inr w'"
  shows "\<exists>ns ap v. status (agreementOf w i) \<in> {Active, Overdue, Active_PartialPaymentAgreed}
     \<and> LoanAgreement.borrower (agreementOf w i) = sender
     \<and> 0 < pay \<and> amountPaid (agreementOf w i) + pay \<le> total_due (agreementOf w i)
     \<and> ns \<in> {Repaid, Overdue, Active, Active_PartialPaymentAgreed}
     \<and> (ap \<longrightarrow> modificationApprovedByLender (agreementOf w i))
     \<and> (\<forall>j. agreementOf w' j = (if j = i then (agreementOf w i)\<lparr>amountPaid := amountPaid (agreementOf w i) + pay,
           modificationApprovedByLender := ap, requestedModificationValue := v, status := ns\<rparr>
           else agreementOf w j))"
proof -
  let ?a = "agreementOf w i"
  from assms obtain td where td: "calculateTotalDue ?a = Inr td"
    unfolding repayLoan_def by (auto simp: Let_def split: if_splits sum.splits)
  note tde = calculateTotalDue_total_due [OF td]
  from assms td obtain w1 where
    pre: "LoanAgreement.borrower ?a = sender" "status ?a \<in> {Active, Overdue, Active_PartialPaymentAgreed}"
      "0 < pay" "amountPaid ?a \<le> td" "pay \<le> td - amountPaid ?a"
    and w1: "tokenTransferFrom (loanToken ?a) (p2pLendingAddr w) sender (LoanAgreement.lender ?a) pay w = Inr w1"
    unfolding repayLoan_def by (auto simp: Let_def split: if_splits sum.splits)
  have l1: "p2pLending w1 = p2pLending w" by (rule tokenTransferFrom_lending [OF w1])
  have a1: "agreementOf w1 i = ?a" by (rule agreementOf_cong [OF l1])
  define w2 where "w2 = setAgreement i (\<lambda>a. a\<lparr>amountPaid := amountPaid a + pay\<rparr>) w1"
  define w3 where "w3 = (if status (agreementOf w2 i) = Active_PartialPaymentAgreed
                            \<and> pay = requestedModificationValue ?a
                         then setAgreement i (\<lambda>a. a\<lparr>modificationApprovedByLender := False,
                                requestedModificationValue := 0\<rparr>) w2
                         else w2)"
  define ns where "ns = (if status (agreementOf w2 i) = Active_PartialPaymentAgreed then
                                  (if pay = requestedModificationValue ?a
                                   then statusAfterPayment now td (agreementOf w3 i)
                                   else Active_PartialPaymentAgreed)
                                else statusAfterPayment now td (agreementOf w3 i))"
  from assms td pre w1 obtain w4 where
    w4: "(if ns = Repaid then settleRepaid now i (requestedModificationType ?a)
            (modificationApprovedByLender ?a) w3 else Inr w3) = Inr w4"
    and w': "w' = setAgreement i (\<lambda>a. a\<lparr>status := ns\<rparr>) w4"
    unfolding repayLoan_def w2_def w3_def ns_def
    by (auto simp: Let_def a1 split: if_splits sum.splits)
  have l4: "p2pLending w4 = p2pLending w3"
    using w4 by (auto split: if_splits dest: settleRepaid_lending)
  have ns_in: "ns \<in> {Repaid, Overdue, Active, Active_PartialPaymentAgreed}"
    by (simp add: ns_def statusAfterPayment_def)
  define ap where "ap = modificationApprovedByLender (agreementOf w3 i)"
  define v where "v = requestedModificationValue (agreementOf w3 i)"
  have ap_imp: "ap \<longrightarrow> modificationApprovedByLender ?a"
    by (simp add: ap_def w3_def w2_def a1)
  have a3: "agreementOf w3 i = ?a\<lparr>amountPaid := amountPaid ?a + pay,
           modificationApprovedByLender := ap, requestedModificationValue := v\<rparr>"
    by (simp add: ap_def v_def w3_def w2_def a1)
  have other: "agreementOf w3 j = agreementOf w j" if "j \<noteq> i" for j
    using that by (simp add: w3_def w2_def agreementOf_cong [OF l1])
  have final: "agreementOf w' j = (if j = i then ?a\<lparr>amountPaid := amountPaid ?a + pay,
           modificationApprovedByLender := ap, requestedModificationValue := v, status := ns\<rparr>
           else agreementOf w j)" for j
    using a3 other [of j] by (simp add: w' agreementOf_cong [OF l4])
  from pre tde have "amountPaid ?a + pay \<le> total_due ?a" by simp
  with pre ns_in ap_imp final show ?thesis by blast
qed

lemma handleP2PDefault_shape:
  assumes "handleP2PDefault sender now i w = Inr w'"
  shows "status (agreementOf w i) = Active \<and> LoanAgreement.lender (agreementOf w i) \<noteq> 0
     \<and> dueDate (agreementOf w i) < now \<and> amountPaid (agreementOf w i) < total_due (agreementOf w i)
     \<and> (\<forall>j. agreementOf w' j = (if j = i then (agreementOf w i)\<lparr>status := Defaulted\<rparr> else agreementOf w j))"
proof -
  let ?a = "agreementOf w i"
  from assms have "\<exists>td. calculateTotalDue ?a = Inr td"
    unfolding handleP2PDefault_def
    by (cases "calculateTotalDue ?a") (simp_all del: run.simps add: Let_def split: if_splits)
  then obtain td where td: "calculateTotalDue ?a = Inr td" ..
  note tde = calculateTotalDue_total_due [OF td]
  let ?f1 = "(\<lambda>w. Inr (setAgreement i (\<lambda>a. a\<lparr>status := Defaulted\<rparr>) w)) :: World \<Rightarrow> World result"
  let ?f2 = "(\<lambda>w. if collateralAmount ?a > 0 \<and> LoanAgreement.collateralToken ?a \<noteq> 0
                then tokenTransfer (LoanAgreement.collateralToken ?a) (p2pLendingAddr w)
                       (LoanAgreement.lender ?a) (collateralAmount ?a) w
                else Inr w)"
  let ?f3 = "(\<lambda>w. if reputationContract (p2pLending w) \<noteq> 0
                then run [
                  updateReputationOnLoanDefault (p2pLendingAddr w) (LoanAgreement.borrower ?a),
                  (\<lambda>w. slashVouches (LoanAgreement.borrower ?a) (LoanAgreement.lender ?a)
                          (getActiveVouchesForBorrower w (LoanAgreement.borrower ?a)) w)
                ] w
                else Inr w)"
  from assms td have pre: "status ?a = Active" "LoanAgreement.lender ?a \<noteq> 0" "dueDate ?a < now"
      "amountPaid ?a < td"
    and r0: "run [?f1, ?f2, ?f3] w = Inr w'"
    unfolding handleP2PDefault_def by (simp_all del: run.simps add: Let_def split: if_splits)
  from r0 have r: "run [?f2, ?f3] (setAgreement i (\<lambda>a. a\<lparr>status := Defaulted\<rparr>) w) = Inr w'"
    by (simp only: run.simps sum.case)
  have f3: "p2pLending t' = p2pLending t" if "?f3 t = Inr t'" for t t'
  proof (cases "reputationContract (p2pLending t) \<noteq> 0")
    case False
    with that show ?thesis by simp
  next
    case True
    with that have rr: "run [
                  updateReputationOnLoanDefault (p2pLendingAddr t) (LoanAgreement.borrower ?a),
                  (\<lambda>w. slashVouches (LoanAgreement.borrower ?a) (LoanAgreement.lender ?a)
                          (getActiveVouchesForBorrower w (LoanAgreement.borrower ?a)) w)] t = Inr t'"
      by (simp del: run.simps)
    show ?thesis
      by (rule run_preserves [OF rr])
        (auto dest: updateReputationOnLoanDefault_lending slashVouches_lending)
  qed
  have f2: "p2pLending t' = p2pLending t" if "?f2 t = Inr t'" for t t'
    using that by (auto split: if_splits dest: tokenTransfer_lending)
  have fs: "p2pLending t' = p2pLending t" if "f \<in> set [?f2, ?f3]" "f t = Inr t'" for f t t'
  proof -
    from that(1) have "f = ?f2 \<or> f = ?f3" by simp
    then show ?thesis
    proof
      assume "f = ?f2"
      with that(2) have "?f2 t = Inr t'" by simp
      then show ?thesis by (rule f2)
    next
      assume "f = ?f3"
      with that(2) have "?f3 t = Inr t'" by simp
      then show ?thesis by (rule f3)
    qed
  qed
  have "p2pLending w' = p2pLending (setAgreement i (\<lambda>a. a\<lparr>status := Defaulted\<rparr>) w)"
    by (rule run_preserves [OF r fs])
  then have "agreementOf w' j = agreementOf (setAgreement i (\<lambda>a. a\<lparr>status := Defaulted\<rparr>) w) j" for j
    by (rule agreementOf_cong)
  with pre tde show ?thesis by simp
qed

lemma requestPaymentModification_shape:
  assumes "requestPaymentModification sender i ty v w = Inr w'"
  shows "LoanAgreement.borrower (agreementOf w i) = sender
     \<and> status (agreementOf w i) \<in> {Active, Overdue} \<and> 0 < v
     \<and> (ty = DueDateExtension \<longrightarrow> dueDate (agreementOf w i) < v)
     \<and> (\<forall>j. agreementOf w' j = (if j = i then (agreementOf w i)\<lparr>
             requestedModificationType := ty,
             requestedModificationValue := v,
             modificationApprovedByLender := False,
             status := PendingModificationApproval\<rparr> else agreementOf w j))"
  using assms unfolding requestPaymentModification_def
  by (auto simp: Let_def split: if_splits)

lemma respondToPaymentModification_shape:
  assumes "respondToPaymentModification sender now i ap w = Inr w'"
  shows "LoanAgreement.lender (agreementOf w i) = sender
     \<and> status (agreementOf w i) = PendingModificationApproval
     \<and> (\<forall>j. agreementOf w' j = (if j \<noteq> i then agreementOf w j
          else if \<not> ap then (agreementOf w i)\<lparr>modificationApprovedByLender := False,
                 status := (if now < dueDate (agreementOf w i) then Active else Overdue)\<rparr>
          else if requestedModificationType (agreementOf w i) = DueDateExtension
            then (agreementOf w i)\<lparr>modificationApprovedByLender := True,
                 dueDate := requestedModificationValue (agreementOf w i),
                 status := (if now < requestedModificationValue (agreementOf w i) then Active else Overdue)\<rparr>
          else if requestedModificationType (agreementOf w i) = PartialPaymentAgreement
            then (agreementOf w i)\<lparr>modificationApprovedByLender := True,
                 status := Active_PartialPaymentAgreed\<rparr>
          else (agreementOf w i)\<lparr>modificationApprovedByLender := True\<rparr>))"
  using assms unfolding respondToPaymentModification_def
  by (auto simp: Let_def split: if_splits)

lemma pushAgreementIds_agreementOf [simp]:
  "agreementOf (pushAgreementIds l b i w) j = agreementOf w j"
  by (simp add: pushAgreementIds_def agreementOf_def)

lemma acceptCollateral_lending:
  "acceptCollateral sender offer ca ct w = Inr w' \<Longrightarrow> p2pLending w' = p2pLending w"
  by (auto simp: acceptCollateral_def split: if_splits dest: tokenTransferFrom_lending)

lemma acceptLoanOffer_shape:
  assumes "acceptLoanOffer sender now oid ca ct w = Inr (aid, w')"
  shows "\<exists>a'. status a' = Active \<and> amountPaid a' = 0 \<and> \<not> modificationApprovedByLender a'
     \<and> requestedModificationType a' = DueDateExtension \<and> requestedModificationValue a' = 0
     \<and> LoanAgreement.borrower a' = sender
     \<and> LoanAgreement.lender a' = LoanOffer.lender (loanOffers (p2pLending w) oid)
     \<and> (\<forall>j. agreementOf w' j = (if j = aid then a' else agreementOf w j))"
proof -
  let ?offer = "loanOffers (p2pLending w) oid"
  from assms obtain w1 w2 where
    w1: "acceptCollateral sender ?offer ca ct w = Inr w1"
    and w2: "tokenTransfer (LoanOffer.token ?offer) (p2pLendingAddr w1) sender (LoanOffer.amount ?offer) w1 = Inr w2"
    unfolding acceptLoanOffer_def by (auto simp: Let_def split: if_splits sum.splits)
  have l2: "p2pLending w2 = p2pLending w"
    using acceptCollateral_lending [OF w1] tokenTransfer_lending [OF w2] by simp
  from assms w1 w2 show ?thesis
    unfolding acceptLoanOffer_def
    by (auto simp: Let_def agreementOf_def setAgreement_def l2 pushAgreementIds_def split: if_splits)
qed

lemma fundLoanRequest_shape:
  assumes "fundLoanRequest sender now rid w = Inr (aid, w')"
  shows "\<exists>a'. status a' = Active \<and> amountPaid a' = 0 \<and> \<not> modificationApprovedByLender a'
     \<and> requestedModificationType a' = DueDateExtension \<and> requestedModificationValue a' = 0
     \<and> LoanAgreement.lender a' = sender
     \<and> LoanAgreement.borrower a' = LoanRequest.borrower (loanRequests (p2pLending w) rid)
     \<and> (\<forall>j. agreementOf w' j = (if j = aid then a' else agreementOf w j))"
proof -
  let ?request = "loanRequests (p2pLending w) rid"
  from assms obtain w1 w2 where
    w1: "tokenTransferFrom (LoanRequest.token ?request) (p2pLendingAddr w) sender
                  (LoanRequest.borrower ?request) (LoanRequest.amount ?request) w = Inr w1"
    and w2: "(if offeredCollateralAmount ?request > 0
             then tokenTransferFrom (LoanRequest.collateralToken ?request) (p2pLendingAddr w1)
                    (LoanRequest.borrower ?request) (p2pLendingAddr w1) (offeredCollateralAmount ?request) w1
             else Inr w1) = Inr w2"
    unfolding fundLoanRequest_def by (auto simp: Let_def split: if_splits sum.splits)
  have l2: "p2pLending w2 = p2pLending w"
    using tokenTransferFrom_lending [OF w1] w2 by (auto split: if_splits dest: tokenTransferFrom_lending)
  from assms w1 w2 show ?thesis
    unfolding fundLoanRequest_def
    by (auto simp: Let_def agreementOf_def setAgreement_def l2 pushAgreementIds_def split: if_splits)
qed

lemma createLoanOffer_agreements:
  "createLoanOffer sender now a t r d ca ct w = Inr (oid, w') \<Longrightarrow> agreementOf w' j = agreementOf w j"
  unfolding createLoanOffer_def
  by (auto simp: Let_def agreementOf_def split: if_splits sum.splits dest!: tokenTransferFrom_lending)

lemma createLoanRequest_agreements:
  "createLoanRequest sender now a t r d ca ct w = Inr (rid, w') \<Longrightarrow> agreementOf w' j = agreementOf w j"
  unfolding createLoanRequest_def
  by (auto simp: Let_def agreementOf_def split: if_splits)

lemma setReputationContractAddress_agreements:
  "setReputationContractAddress ow a w = Inr w' \<Longrightarrow> agreementOf w' j = agreementOf w j"
  unfolding setReputationContractAddress_def
  by (auto simp: agreementOf_def split: if_splits)

lemma dropId_Inr: "dropId r = Inr w' \<Longrightarrow> \<exists>i. r = Inr (i, w')"
  by (auto simp: dropId_def split: sum.splits)

lemma total_due_updates [simp]:
  "total_due (a\<lparr>amountPaid := x\<rparr>) = total_due a"
  "total_due (a\<lparr>status := s\<rparr>) = total_due a"
  "total_due (a\<lparr>modificationApprovedByLender := b\<rparr>) = total_due a"
  "total_due (a\<lparr>requestedModificationValue := v\<rparr>) = total_due a"
  "total_due (a\<lparr>requestedModificationType := t\<rparr>) = total_due a"
  "total_due (a\<lparr>dueDate := d\<rparr>) = total_due a"
  by (simp_all add: total_due_def)

lemma exec_preserves_inv:
  assumes ex: "exec c w = Inr w'" and inv: "\<And>j. agreement_inv (agreementOf w j)"
  shows "agreement_inv (agreementOf w' j)"
proof (cases c)
  case (CreateLoanOffer sender now a t r d ca ct)
  with ex obtain oid where "createLoanOffer sender now a t r d ca ct w = Inr (oid, w')"
    by (auto dest: dropId_Inr)
  from createLoanOffer_agreements [OF this] inv show ?thesis by simp
next
  case (CreateLoanRequest sender now a t r d ca ct)
  with ex obtain rid where "createLoanRequest sender now a t r d ca ct w = Inr (rid, w')"
    by (auto dest: dropId_Inr)
  from createLoanRequest_agreements [OF this] inv show ?thesis by simp
next
  case (AcceptLoanOffer sender now oid ca ct)
  with ex obtain aid where "acceptLoanOffer sender now oid ca ct w = Inr (aid, w')"
    by (auto dest: dropId_Inr)
  from acceptLoanOffer_shape [OF this] obtain a' where
    a': "status a' = Active" "amountPaid a' = 0" "\<not> modificationApprovedByLender a'"
    and all: "\<forall>j. agreementOf w' j = (if j = aid then a' else agreementOf w j)"
    by blast
  from a' have "agreement_inv a'" by (simp add: agreement_inv_def)
  with all inv show ?thesis by simp
next
  case (FundLoanRequest sender now rid)
  with ex obtain aid where "fundLoanRequest sender now rid w = Inr (aid, w')"
    by (auto dest: dropId_Inr)
  from fundLoanRequest_shape [OF this] obtain a' where
    a': "status a' = Active" "amountPaid a' = 0" "\<not> modificationApprovedByLender a'"
    and all: "\<forall>j. agreementOf w' j = (if j = aid then a' else agreementOf w j)"
    by blast
  from a' have "agreement_inv a'" by (simp add: agreement_inv_def)
  with all inv show ?thesis by simp
next
  case (RepayLoan sender now i pay)
  with ex have "repayLoan sender now i pay w = Inr w'" by simp
  from repayLoan_shape [OF this] obtain ns ap v where
    st: "status (agreementOf w i) \<in> {Active, Overdue, Active_PartialPaymentAgreed}"
    and paid: "amountPaid (agreementOf w i) + pay \<le> total_due (agreementOf w i)"
    and ns: "ns \<in> {Repaid, Overdue, Active, Active_PartialPaymentAgreed}"
    and ap: "ap \<longrightarrow> modificationApprovedByLender (agreementOf w i)"
    and all: "\<forall>j. agreementOf w' j = (if j = i then (agreementOf w i)\<lparr>amountPaid := amountPaid (agreementOf w i) + pay,
           modificationApprovedByLender := ap, requestedModificationValue := v, status := ns\<rparr>
           else agreementOf w j)"
    by blast
  have "agreement_inv ((agreementOf w i)\<lparr>amountPaid := amountPaid (agreementOf w i) + pay,
           modificationApprovedByLender := ap, requestedModificationValue := v, status := ns\<rparr>)"
    using inv [of i] st paid ns ap by (auto simp: agreement_inv_def)
  with all inv show ?thesis by simp
next
  case (HandleP2PDefault sender now i)
  with ex have "handleP2PDefault sender now i w = Inr w'" by simp
  from handleP2PDefault_shape [OF this] have
    st: "status (agreementOf w i) = Active"
    and all: "\<forall>j. agreementOf w' j = (if j = i then (agreementOf w i)\<lparr>status := Defaulted\<rparr> else agreementOf w j)"
    by blast+
  have "agreement_inv ((agreementOf w i)\<lparr>status := Defaulted\<rparr>)"
    using inv [of i] st by (auto simp: agreement_inv_def)
  with all inv show ?thesis by simp
next
  case (RequestPaymentModification sender i ty v)
  with ex have "requestPaymentModification sender i ty v w = Inr w'" by simp
  from requestPaymentModification_shape [OF this] have
    dd: "ty = DueDateExtension \<longrightarrow> dueDate (agreementOf w i) < v"
    and all: "\<forall>j. agreementOf w' j = (if j = i then (agreementOf w i)\<lparr>
             requestedModificationType := ty,
             requestedModificationValue := v,
             modificationApprovedByLender := False,
             status := PendingModificationApproval\<rparr> else agreementOf w j)"
    by blast+
  have "agreement_inv ((agreementOf w i)\<lparr>
             requestedModificationType := ty,
             requestedModificationValue := v,
             modificationApprovedByLender := False,
             status := PendingModificationApproval\<rparr>)"
    using inv [of i] dd by (auto simp: agreement_inv_def)
  with all inv show ?thesis by simp
next
  case (RespondToPaymentModification sender now i ap)
  with ex have "respondToPaymentModification sender now i ap w = Inr w'" by simp
  from respondToPaymentModification_shape [OF this] have
    st: "status (agreementOf w i) = PendingModificationApproval"
    and all: "\<forall>j. agreementOf w' j = (if j \<noteq> i then agreementOf w j
          else if \<not> ap then (agreementOf w i)\<lparr>modificationApprovedByLender := False,
                 status := (if now < dueDate (agreementOf w i) then Active else Overdue)\<rparr>
          else if requestedModificationType (agreementOf w i) = DueDateExtension
            then (agreementOf w i)\<lparr>modificationApprovedByLender := True,
                 dueDate := requestedModificationValue (agreementOf w i),
                 status := (if now < requestedModificationValue (agreementOf w i) then Active else Overdue)\<rparr>
          else if requestedModificationType (agreementOf w i) = PartialPaymentAgreement
            then (agreementOf w i)\<lparr>modificationApprovedByLender := True,
                 status := Active_PartialPaymentAgreed\<rparr>
          else (agreementOf w i)\<lparr>modificationApprovedByLender := True\<rparr>)"
    by blast+
  show ?thesis
  proof (cases "j = i")
    case False
    with all inv show ?thesis by simp
  next
    case True
    with all inv [of i] st show ?thesis
      by (auto simp: agreement_inv_def)
  qed
next
  case (SetReputationContractAddress ow a)
  with ex have "setReputationContractAddress ow a w = Inr w'" by simp
  from setReputationContractAddress_agreements [OF this] inv show ?thesis by simp
qed

lemma zeroAgreement_inv: "agreement_inv zeroAgreement"
  by (simp add: agreement_inv_def zeroAgreement_def total_due_def)

lemma reachable_inv: "reachable w \<Longrightarrow> agreement_inv (agreementOf w j)"
proof (induction arbitrary: j rule: reachable.induct)
  case (deployed w rc)
  then show ?case by (simp add: agreementOf_def freshLending_def zeroAgreement_inv)
next
  case (environment w w')
  then show ?case by (simp add: agreementOf_def)
next
  case (transaction w c w')
  show ?case by (rule exec_preserves_inv [OF transaction.hyps(2)]) (rule transaction.IH)
qed

lemma classify_agrees:
  "\<not> (ap \<and> ty = NoModification) \<Longrightarrow> classifyOutcome now due ty ap = firstMatchingRule now due ty ap"
  by (cases ty) (auto simp: classifyOutcome_def firstMatchingRule_def)

lemma classify_differs: "classifyOutcome 5 10 NoModification True \<noteq> firstMatchingRule 5 10 NoModification True"
  by (simp add: classifyOutcome_def firstMatchingRule_def)

text \<open>The settling repayment hands the classifier's outcome to Reputation.\<close>

lemma repayLoan_settles:
  assumes rp: "repayLoan sender now i pay w = Inr w'"
    and st: "status (agreementOf w' i) = Repaid"
    and rc: "reputationContract (p2pLending w) \<noteq> 0"
  shows "\<exists>w3 w4. recordLoanPaymentOutcome (p2pLendingAddr w3) i
            (LoanAgreement.borrower (agreementOf w i)) (LoanAgreement.lender (agreementOf w i))
            (principalAmount (agreementOf w i))
            (classifyOutcome now (dueDate (agreementOf w i)) (requestedModificationType (agreementOf w i))
               (modificationApprovedByLender (agreementOf w i)))
            (requestedModificationType (agreementOf w i))
            (modificationApprovedByLender (agreementOf w i)) w3 = Inr w4
        \<and> w' = setAgreement i (\<lambda>a. a\<lparr>status := Repaid\<rparr>) w4"
proof -
  let ?a = "agreementOf w i"
  from rp obtain td where td: "calculateTotalDue ?a = Inr td"
    unfolding repayLoan_def by (auto simp: Let_def split: if_splits sum.splits)
  from rp td obtain w1 where
    pre: "LoanAgreement.borrower ?a = sender" "status ?a \<in> {Active, Overdue, Active_PartialPaymentAgreed}"
      "0 < pay" "amountPaid ?a \<le> td" "pay \<le> td - amountPaid ?a"
    and w1: "tokenTransferFrom (loanToken ?a) (p2pLendingAddr w) sender (LoanAgreement.lender ?a) pay w = Inr w1"
    unfolding repayLoan_def by (auto simp: Let_def split: if_splits sum.splits)
  have l1: "p2pLending w1 = p2pLending w" by (rule tokenTransferFrom_lending [OF w1])
  have a1: "agreementOf w1 i = ?a" by (rule agreementOf_cong [OF l1])
  define w2 where "w2 = setAgreement i (\<lambda>a. a\<lparr>amountPaid := amountPaid a + pay\<rparr>) w1"
  define w3 where "w3 = (if status (agreementOf w2 i) = Active_PartialPaymentAgreed
                            \<and> pay = requestedModificationValue ?a
                         then setAgreement i (\<lambda>a. a\<lparr>modificationApprovedByLender := False,
                                requestedModificationValue := 0\<rparr>) w2
                         else w2)"
  define ns where "ns = (if status (agreementOf w2 i) = Active_PartialPaymentAgreed then
                                  (if pay = requestedModificationValue ?a
                                   then statusAfterPayment now td (agreementOf w3 i)
                                   else Active_PartialPaymentAgreed)
                                else statusAfterPayment now td (agreementOf w3 i))"
  from rp td pre w1 obtain w4 where
    w4: "(if ns = Repaid then settleRepaid now i (requestedModificationType ?a)
            (modificationApprovedByLender ?a) w3 else Inr w3) = Inr w4"
    and w': "w' = setAgreement i (\<lambda>a. a\<lparr>status := ns\<rparr>) w4"
    unfolding repayLoan_def w2_def w3_def ns_def
    by (auto simp: Let_def a1 split: if_splits sum.splits)
  from st w' have ns: "ns = Repaid" by simp
  with w4 have s: "settleRepaid now i (requestedModificationType ?a)
            (modificationApprovedByLender ?a) w3 = Inr w4" by simp
  have l3: "reputationContract (p2pLending w3) = reputationContract (p2pLending w)"
    by (simp add: w3_def w2_def setAgreement_def l1)
  have d3: "dueDate (agreementOf w3 i) = dueDate ?a"
    "LoanAgreement.borrower (agreementOf w3 i) = LoanAgreement.borrower ?a"
    "LoanAgreement.lender (agreementOf w3 i) = LoanAgreement.lender ?a"
    "principalAmount (agreementOf w3 i) = principalAmount ?a"
    by (simp_all add: w3_def w2_def a1)
  let ?f1 = "(\<lambda>w. if collateralAmount (agreementOf w3 i) > 0 \<and> LoanAgreement.collateralToken (agreementOf w3 i) \<noteq> 0
              then tokenTransfer (LoanAgreement.collateralToken (agreementOf w3 i)) (p2pLendingAddr w)
                     (LoanAgreement.borrower (agreementOf w3 i)) (collateralAmount (agreementOf w3 i)) w
              else Inr w)"
  from s obtain w3' where c: "?f1 w3 = Inr w3'"
    and r: "(if reputationContract (p2pLending w3') \<noteq> 0
              then recordLoanPaymentOutcome (p2pLendingAddr w3') i
                     (LoanAgreement.borrower (agreementOf w3 i)) (LoanAgreement.lender (agreementOf w3 i))
                     (principalAmount (agreementOf w3 i))
                     (classifyOutcome now (dueDate (agreementOf w3 i)) (requestedModificationType ?a)
                        (modificationApprovedByLender ?a))
                     (requestedModificationType ?a) (modificationApprovedByLender ?a) w3'
              else Inr w3') = Inr w4"
    unfolding settleRepaid_def by (auto simp: Let_def split: sum.splits)
  have "p2pLending w3' = p2pLending w3"
    using c by (auto split: if_splits dest: tokenTransfer_lending)
  with l3 rc have "reputationContract (p2pLending w3') \<noteq> 0" by simp
  with r d3 have "recordLoanPaymentOutcome (p2pLendingAddr w3') i
            (LoanAgreement.borrower ?a) (LoanAgreement.lender ?a) (principalAmount ?a)
            (classifyOutcome now (dueDate ?a) (requestedModificationType ?a) (modificationApprovedByLender ?a))
            (requestedModificationType ?a) (modificationApprovedByLender ?a) w3' = Inr w4"
    by simp
  with w' ns show ?thesis by blast
qed

section \<open>Evaluating the scenarios\<close>

lemmas scenario_defs = theLender_def theBorrower_def theVoucher_def mockDai_def reputationAt_def lendingAt_def
  oneDay_def registry0_def emptyRegistry_def ledgers0_def world0_def
  offer100_def agreement100_def formAgreement100_def
  freshReputation_def freshLending_def zeroAgreement_def zeroOffer_def zeroRequest_def zeroProfile_def
  zeroVouch_def

lemmas contract_defs = createLoanOffer_def createLoanRequest_def acceptLoanOffer_def acceptCollateral_def
  fundLoanRequest_def
  requestPaymentModification_def respondToPaymentModification_def
  repayLoan_def settleRepaid_def recordLoanPaymentOutcome_def handleP2PDefault_def
  updateReputationOnLoanDefault_def slashVouchAndReputation_def slashAmountFor_def
  getActiveVouchesForBorrower_def addVouch_def removeVouch_def
  tokenTransfer_def tokenTransferFrom_def erc20_transfer_def erc20_transferFrom_def
  setAgreement_def agreementOf_def pushAgreementIds_def calculateTotalDue_def calculateInterest_def
  statusAfterPayment_def classifyOutcome_def
  isUserRegistered_def dropId_def MAX_UINT256_def MAX_UINT16_def BASIS_POINTS_def MIN_INT256_def MAX_INT256_def
  initializeReputationProfileIfNotExists_def uintAdd_def uintSub_def scoreAdd_def setProfile_def profileOf_def skip_def
  vouchOf_def setVouch_def pushVouchGiven_def pushVouchReceived_def
  borrowerRepChange_def lenderRepChange_def lenderBaseRepChange_def borrowerOutcomeCounter_def lenderModificationCounter_def
  REPUTATION_POINTS_REPAID_ON_TIME_ORIGINAL_def REPUTATION_POINTS_REPAID_LATE_GRACE_def
  REPUTATION_POINTS_REPAID_ON_TIME_AFTER_EXTENSION_def REPUTATION_POINTS_REPAID_LATE_AFTER_EXTENSION_def
  REPUTATION_POINTS_REPAID_WITH_PARTIAL_AGREEMENT_MET_def REPUTATION_POINTS_DEFAULTED_def
  REPUTATION_POINTS_LENT_SUCCESSFULLY_ON_TIME_ORIGINAL_def REPUTATION_POINTS_LENT_SUCCESSFULLY_AFTER_MODIFICATION_def
  REPUTATION_POINTS_LENDER_APPROVED_EXTENSION_def REPUTATION_POINTS_LENDER_APPROVED_PARTIAL_AGREEMENT_def
  REPUTATION_POINTS_LENDER_REJECTED_MODIFICATION_def REPUTATION_POINTS_VOUCH_DEFAULTED_VOUCHER_def
  Let_def

section \<open>Reachability of the scenarios and further lemmas\<close>

lemma fillActive_length: "length (fillActive r xs) = countActive r xs"
  by (induction xs) (simp_all add: Let_def)

lemma getActiveVouchesForBorrower_fill:
  "getActiveVouchesForBorrower w b = fillActive (reputation w) (userVouchesReceived (reputation w) b)"
  by (simp add: getActiveVouchesForBorrower_def Let_def fillActive_length)

text \<open>Without overflow the slash of the loop is the spec's formula.\<close>

lemma slashAmountFor_spec:
  "0 < s \<Longrightarrow> s * 1000 \<le> MAX_UINT256 \<Longrightarrow> slashAmountFor s = Inr (slash_amount s)"
  by (auto simp: slashAmountFor_def slash_amount_def BASIS_POINTS_def Let_def)

lemma slashAmountFor_overflow:
  "MAX_UINT256 < s * 1000 \<Longrightarrow> slashAmountFor s = Inl Panic"
  by (simp add: slashAmountFor_def)

text \<open>
  One successful call of \<open>slashVouchAndReputation\<close>, for a voucher whose profile exists:
  the stake, the voucher's aggregate and the ledger move by the slashed amount, the score
  drops by 20, one more default is counted, and the vouch stays active exactly while
  stake is left.
\<close>

lemma slashVouchAndReputation_effect:
  assumes s: "slashVouchAndReputation sender v b n l w = Inr w'"
    and ex: "userAddress (profileOf w v) \<noteq> 0"
  shows "sender = p2pLendingContractAddress (reputation w)
     \<and> Vouch.isActive (vouchOf w v b) \<and> 0 < n \<and> n \<le> stakedAmount (vouchOf w v b)
     \<and> stakedAmount (vouchOf w' v b) = stakedAmount (vouchOf w v b) - n
     \<and> (Vouch.isActive (vouchOf w' v b) \<longleftrightarrow> stakedAmount (vouchOf w' v b) \<noteq> 0)
     \<and> currentReputationScore (profileOf w' v) = currentReputationScore (profileOf w v) - 20
     \<and> vouchingStakeAmount (profileOf w' v) = vouchingStakeAmount (profileOf w v) - n
     \<and> n \<le> vouchingStakeAmount (profileOf w v)
     \<and> timesDefaultedAsVoucher (profileOf w' v) = timesDefaultedAsVoucher (profileOf w v) + 1
     \<and> erc20_transfer (tokenAddress (vouchOf w v b)) (reputationAddr w) l n (erc20 w) = Inr (erc20 w')"
  using s ex
  unfolding slashVouchAndReputation_def
  by (auto simp: initializeReputationProfileIfNotExists_def scoreAdd_def uintSub_def uintAdd_def
      tokenTransfer_def setProfile_def setVouch_def profileOf_def vouchOf_def
      REPUTATION_POINTS_VOUCH_DEFAULTED_VOUCHER_def
      split: if_splits sum.splits)

text \<open>Only an Active agreement can be defaulted.\<close>

lemma handleP2PDefault_requires_Active:
  assumes "status (agreementOf w i) \<noteq> Active"
  shows "\<exists>e. handleP2PDefault sender now i w = Inl e"
proof (cases "handleP2PDefault sender now i w")
  case (Inl e)
  then show ?thesis by simp
next
  case (Inr w')
  from handleP2PDefault_shape [OF Inr] assms show ?thesis by simp
qed

text \<open>A newly formed agreement carries the type DueDateExtension and no approval.\<close>

lemma acceptLoanOffer_initial_type:
  assumes "acceptLoanOffer sender now oid ca ct w = Inr (aid, w')"
  shows "requestedModificationType (agreementOf w' aid) = DueDateExtension
     \<and> \<not> modificationApprovedByLender (agreementOf w' aid)"
  using acceptLoanOffer_shape [OF assms] by auto

lemma fundLoanRequest_initial_type:
  assumes "fundLoanRequest sender now rid w = Inr (aid, w')"
  shows "requestedModificationType (agreementOf w' aid) = DueDateExtension
     \<and> \<not> modificationApprovedByLender (agreementOf w' aid)"
  using fundLoanRequest_shape [OF assms] by auto

lemma run_exec_reachable:
  "reachable w \<Longrightarrow> list_all (\<lambda>f. \<exists>c. f = exec c) fs \<Longrightarrow> run fs w = Inr w' \<Longrightarrow> reachable w'"
proof (induction fs arbitrary: w)
  case Nil
  then show ?case by simp
next
  case (Cons f fs)
  from Cons.prems(2) obtain c where f: "f = exec c" and rest: "list_all (\<lambda>f. \<exists>c. f = exec c) fs"
    by auto
  from Cons.prems(3) obtain t where ft: "f w = Inr t" and r: "run fs t = Inr w'"
    by (auto split: sum.splits)
  from ft f have "exec c w = Inr t" by simp
  with Cons.prems(1) have "reachable t" by (rule reachable.transaction)
  then show ?case using rest r by (rule Cons.IH)
qed

lemma reachable_world0: "reachable world0"
  by (rule reachable.deployed [of _ reputationAt]) (simp add: world0_def)

lemma worldExtensionRequested_run:
  "run [
     exec (CreateLoanOffer theLender 1000 (70 * 10 ^ 18) mockDai 1000 (7 * oneDay) 0 0),
     exec (AcceptLoanOffer theBorrower 1000 offer70 0 0),
     exec (RequestPaymentModification theBorrower agreement70 DueDateExtension (1000 + 14 * oneDay))]
     world0 = Inr worldExtensionRequested"
  by (simp add: worldExtensionRequested_def offer70_def agreement70_def
      scenario_defs contract_defs)

lemma reachable_worldExtensionRequested: "reachable worldExtensionRequested"
  by (rule run_exec_reachable [OF reachable_world0 _ worldExtensionRequested_run]) auto

lemma worldExtensionApproved_run:
  "respondToPaymentModification theLender (1000 + 6 * oneDay) agreement70 True worldExtensionRequested
     = Inr worldExtensionApproved"
  by (simp add: worldExtensionApproved_def worldExtensionRequested_def offer70_def agreement70_def
      scenario_defs contract_defs)

lemma reachable_worldExtensionApproved: "reachable worldExtensionApproved"
proof -
  have "exec (RespondToPaymentModification theLender (1000 + 6 * oneDay) agreement70 True)
          worldExtensionRequested = Inr worldExtensionApproved"
    using worldExtensionApproved_run by simp
  with reachable_worldExtensionRequested show ?thesis by (rule reachable.transaction)
qed

lemma repayLoan_rejects:
  assumes "pay = 0 \<or> total_due (agreementOf w i) - amountPaid (agreementOf w i) < pay"
  shows "\<exists>e. repayLoan sender now i pay w = Inl e"
proof (cases "repayLoan sender now i pay w")
  case (Inl e)
  then show ?thesis by simp
next
  case (Inr w')
  from repayLoan_shape [OF Inr] have "0 < pay"
    "amountPaid (agreementOf w i) + pay \<le> total_due (agreementOf w i)" by blast+
  with assms show ?thesis by auto
qed

lemma exec_amountPaid:
  assumes ex: "exec c w = Inr w'" and nr: "\<not> isRepay c"
  shows "amountPaid (agreementOf w' j) \<le> amountPaid (agreementOf w j)"
proof (cases c)
  case (CreateLoanOffer sender now a t r d ca ct)
  with ex obtain oid where "createLoanOffer sender now a t r d ca ct w = Inr (oid, w')"
    by (auto dest: dropId_Inr)
  from createLoanOffer_agreements [OF this] show ?thesis by simp
next
  case (CreateLoanRequest sender now a t r d ca ct)
  with ex obtain rid where "createLoanRequest sender now a t r d ca ct w = Inr (rid, w')"
    by (auto dest: dropId_Inr)
  from createLoanRequest_agreements [OF this] show ?thesis by simp
next
  case (AcceptLoanOffer sender now oid ca ct)
  with ex obtain aid where "acceptLoanOffer sender now oid ca ct w = Inr (aid, w')"
    by (auto dest: dropId_Inr)
  from acceptLoanOffer_shape [OF this] obtain a' where
    "amountPaid a' = 0" "\<forall>j. agreementOf w' j = (if j = aid then a' else agreementOf w j)"
    by blast
  then show ?thesis by simp
next
  case (FundLoanRequest sender now rid)
  with ex obtain aid where "fundLoanRequest sender now rid w = Inr (aid, w')"
    by (auto dest: dropId_Inr)
  from fundLoanRequest_shape [OF this] obtain a' where
    "amountPaid a' = 0" "\<forall>j. agreementOf w' j = (if j = aid then a' else agreementOf w j)"
    by blast
  then show ?thesis by simp
next
  case (RepayLoan sender now i pay)
  with nr show ?thesis by simp
next
  case (HandleP2PDefault sender now i)
  with ex have "handleP2PDefault sender now i w = Inr w'" by simp
  from handleP2PDefault_shape [OF this] show ?thesis by simp
next
  case (RequestPaymentModification sender i ty v)
  with ex have "requestPaymentModification sender i ty v w = Inr w'" by simp
  from requestPaymentModification_shape [OF this] show ?thesis by simp
next
  case (RespondToPaymentModification sender now i ap)
  with ex have "respondToPaymentModification sender now i ap w = Inr w'" by simp
  from respondToPaymentModification_shape [OF this] show ?thesis by simp
next
  case (SetReputationContractAddress ow a)
  with ex have "setReputationContractAddress ow a w = Inr w'" by simp
  from setReputationContractAddress_agreements [OF this] show ?thesis by simp
qed

lemma worldOverdue_run:
  "run (formAgreement100 @ [
       exec (RepayLoan theBorrower (1000 + 8 * oneDay) agreement100 (55 * 10 ^ 18))]) world0 = Inr worldOverdue"
  by (simp add: worldOverdue_def scenario_defs contract_defs)

lemma reachable_worldOverdue: "reachable worldOverdue"
  by (rule run_exec_reachable [OF reachable_world0 _ worldOverdue_run]) (auto simp: formAgreement100_def)

lemma worldOverdue_facts:
  "amountPaid (agreementOf worldOverdue agreement100) = 55 * 10 ^ 18
   \<and> total_due (agreementOf worldOverdue agreement100) = 110 * 10 ^ 18
   \<and> status (agreementOf worldOverdue agreement100) = Overdue
   \<and> dueDate (agreementOf worldOverdue agreement100) = 1000 + 7 * oneDay
   \<and> calculateTotalDue (agreementOf worldOverdue agreement100) = Inr (110 * 10 ^ 18)"
  by (simp add: worldOverdue_def total_due_def scenario_defs contract_defs)

lemma worldOverduePending_run:
  "exec (RequestPaymentModification theBorrower agreement100 DueDateExtension (1000 + 14 * oneDay))
     worldOverdue = Inr worldOverduePending"
  by (simp add: worldOverduePending_def worldOverdue_def scenario_defs contract_defs)

lemma worldExtensionRepaid_run:
  "repayLoan theBorrower (1000 + 13 * oneDay) agreement70 (77 * 10 ^ 18) worldExtensionApproved
     = Inr worldExtensionRepaid
   \<and> status (agreementOf worldExtensionRepaid agreement70) = Repaid
   \<and> dueDate (agreementOf worldExtensionApproved agreement70) = 1000 + 14 * oneDay
   \<and> requestedModificationType (agreementOf worldExtensionApproved agreement70) = DueDateExtension
   \<and> modificationApprovedByLender (agreementOf worldExtensionApproved agreement70)
   \<and> LoanAgreement.borrower (agreementOf worldExtensionApproved agreement70) = theBorrower
   \<and> LoanAgreement.lender (agreementOf worldExtensionApproved agreement70) = theLender
   \<and> principalAmount (agreementOf worldExtensionApproved agreement70) = 70 * 10 ^ 18
   \<and> reputationContract (p2pLending worldExtensionApproved) = reputationAt"
  by (simp add: worldExtensionRepaid_def worldExtensionApproved_def worldExtensionRequested_def
      offer70_def agreement70_def
      scenario_defs contract_defs)

lemma exec_pending_unchanged:
  assumes ex: "exec c w = Inr w'"
    and st: "status (agreementOf w i) = PendingModificationApproval"
    and nr: "\<not> respondsTo i c"
  shows "agreementOf w' i = agreementOf w i
      \<or> formsAgreement c \<and> status (agreementOf w' i) = Active"
proof (cases c)
  case (CreateLoanOffer sender now a t r d ca ct)
  with ex obtain oid where "createLoanOffer sender now a t r d ca ct w = Inr (oid, w')"
    by (auto dest: dropId_Inr)
  from createLoanOffer_agreements [OF this] show ?thesis by simp
next
  case (CreateLoanRequest sender now a t r d ca ct)
  with ex obtain rid where "createLoanRequest sender now a t r d ca ct w = Inr (rid, w')"
    by (auto dest: dropId_Inr)
  from createLoanRequest_agreements [OF this] show ?thesis by simp
next
  case (AcceptLoanOffer sender now oid ca ct)
  with ex obtain aid where "acceptLoanOffer sender now oid ca ct w = Inr (aid, w')"
    by (auto dest: dropId_Inr)
  from acceptLoanOffer_shape [OF this] obtain a' where
    "status a' = Active" "\<forall>j. agreementOf w' j = (if j = aid then a' else agreementOf w j)"
    by blast
  with AcceptLoanOffer show ?thesis by (cases "i = aid") simp_all
next
  case (FundLoanRequest sender now rid)
  with ex obtain aid where "fundLoanRequest sender now rid w = Inr (aid, w')"
    by (auto dest: dropId_Inr)
  from fundLoanRequest_shape [OF this] obtain a' where
    "status a' = Active" "\<forall>j. agreementOf w' j = (if j = aid then a' else agreementOf w j)"
    by blast
  with FundLoanRequest show ?thesis by (cases "i = aid") simp_all
next
  case (RepayLoan sender now k pay)
  with ex have "repayLoan sender now k pay w = Inr w'" by simp
  from repayLoan_shape [OF this] st show ?thesis by (cases "k = i") auto
next
  case (HandleP2PDefault sender now k)
  with ex have "handleP2PDefault sender now k w = Inr w'" by simp
  from handleP2PDefault_shape [OF this] st show ?thesis by (cases "k = i") auto
next
  case (RequestPaymentModification sender k ty v)
  with ex have "requestPaymentModification sender k ty v w = Inr w'" by simp
  from requestPaymentModification_shape [OF this] st show ?thesis by (cases "k = i") auto
next
  case (RespondToPaymentModification sender now k ap)
  with nr have ki: "k \<noteq> i" by simp
  from RespondToPaymentModification ex have "respondToPaymentModification sender now k ap w = Inr w'" by simp
  from respondToPaymentModification_shape [OF this] ki show ?thesis by simp
next
  case (SetReputationContractAddress ow a)
  with ex have "setReputationContractAddress ow a w = Inr w'" by simp
  from setReputationContractAddress_agreements [OF this] show ?thesis by simp
qed

lemma worldExtensionRequestedMore_run:
  "exec (CreateLoanRequest theBorrower (1000 + 6 * oneDay) (10 * 10 ^ 18) mockDai 500 oneDay 0 0)
     worldExtensionRequested = Inr worldExtensionRequestedMore"
  by (simp add: worldExtensionRequestedMore_def worldExtensionRequested_def offer70_def agreement70_def
      scenario_defs contract_defs)

lemma worldExtensionRequested_step:
  "requestPaymentModification theBorrower agreement70 DueDateExtension (1000 + 14 * oneDay)
     (projr (run [
       exec (CreateLoanOffer theLender 1000 (70 * 10 ^ 18) mockDai 1000 (7 * oneDay) 0 0),
       exec (AcceptLoanOffer theBorrower 1000 offer70 0 0)] world0))
     = Inr worldExtensionRequested
   \<and> dueDate (agreementOf (projr (run [
       exec (CreateLoanOffer theLender 1000 (70 * 10 ^ 18) mockDai 1000 (7 * oneDay) 0 0),
       exec (AcceptLoanOffer theBorrower 1000 offer70 0 0)] world0)) agreement70) = 1000 + 7 * oneDay"
  by (simp add: worldExtensionRequested_def offer70_def agreement70_def
      scenario_defs contract_defs)

lemma worldOverdue_step:
  "repayLoan theBorrower (1000 + 8 * oneDay) agreement100 (55 * 10 ^ 18) worldFormed = Inr worldOverdue
   \<and> amountPaid (agreementOf worldFormed agreement100) = 0"
  by (simp add: worldOverdue_def worldFormed_def scenario_defs contract_defs)

lemma extension_facts:
  "dueDate (agreementOf worldExtensionRequested agreement70) = 1000 + 7 * oneDay
   \<and> requestedModificationType (agreementOf worldExtensionRequested agreement70) = DueDateExtension
   \<and> status (agreementOf worldExtensionRequested agreement70) = PendingModificationApproval
   \<and> dueDate (agreementOf worldExtensionApproved agreement70) = 1000 + 14 * oneDay
   \<and> status (agreementOf worldExtensionApproved agreement70) = Active"
  by (simp add: worldExtensionApproved_def worldExtensionRequested_def offer70_def agreement70_def
      scenario_defs contract_defs)

lemma single_vouch_slashed_once:
  "getActiveVouchesForBorrower worldVouched theBorrower = [vouch50]
   \<and> handleP2PDefault theLender (1000 + 8 * oneDay) agreement100 worldVouched = Inr worldVouchedDefaulted
   \<and> stakedAmount (vouchOf worldVouchedDefaulted theVoucher theBorrower) = 45 * 10 ^ 18
   \<and> vouchingStakeAmount (profileOf worldVouchedDefaulted theVoucher) = 45 * 10 ^ 18
   \<and> balanceOf (erc20 worldVouchedDefaulted mockDai) theLender
        = balanceOf (erc20 worldVouched mockDai) theLender + 5 * 10 ^ 18
   \<and> currentReputationScore (profileOf worldVouchedDefaulted theVoucher) = - 20
   \<and> timesDefaultedAsVoucher (profileOf worldVouchedDefaulted theVoucher) = 1
   \<and> Vouch.isActive (vouchOf worldVouchedDefaulted theVoucher theBorrower)
   \<and> status (agreementOf worldVouched agreement100) = Active
   \<and> status (agreementOf worldVouchedDefaulted agreement100) = Defaulted"
  by (simp add: worldVouched_def worldVouchedDefaulted_def vouch50_def scenario_defs contract_defs)

lemma registered_stays:
  "isRegistered (userProfiles reg a) \<Longrightarrow>
     (registerUser s now nm reg = Inr reg' \<longrightarrow> isRegistered (userProfiles reg' a))
   \<and> (updateProfile s nm reg = Inr reg' \<longrightarrow> isRegistered (userProfiles reg' a))"
  by (auto simp: registerUser_def updateProfile_def split: if_splits)

section \<open>Claims\<close>

text \<open>
  C1. The claim: for every loan agreement whose status is Active or Overdue, with
  \<open>now > due_date\<close> and \<open>amount_paid < total_due\<close>, \<open>handleP2PDefault\<close> called by anyone
  succeeds and sets the status to Defaulted; in particular when the status is Overdue.

  The code: \<open>handleP2PDefault\<close> requires the status to be Active. The 100-token agreement
  becomes Overdue by a partial repayment one day after its due date; a day later it is
  past due and not fully paid, and \<open>handleP2PDefault\<close> reverts with "P2PL: Loan not
  active for default".
\<close>

theorem handleP2PDefault_reverts_on_Overdue:
  "run (formAgreement100 @ [
       exec (RepayLoan theBorrower (1000 + 8 * oneDay) agreement100 (55 * 10 ^ 18))]) world0 = Inr worldOverdue
   \<and> status (agreementOf worldOverdue agreement100) = Overdue
   \<and> dueDate (agreementOf worldOverdue agreement100) < 1000 + 9 * oneDay
   \<and> amountPaid (agreementOf worldOverdue agreement100) < total_due (agreementOf worldOverdue agreement100)
   \<and> handleP2PDefault theLender (1000 + 9 * oneDay) agreement100 worldOverdue
        = Inl (Revert ''P2PL: Loan not active for default'')"
  by (simp add: worldOverdue_def total_due_def scenario_defs contract_defs)

text \<open>
  C2. The claim: in scenario S5 (the lender approves a PartialPaymentAgreement, the
  borrower pays exactly the agreed value, the status returns to Active with the
  modification cleared, and the borrower repays the remainder before the due date) the
  settling repayment is classified PartialAgreementMetAndRepaid, the borrower's score
  rises by 8 and the lender's by 4.

  The code: paying the agreed value resets \<open>modificationApprovedByLender\<close> (and the
  value) but keeps the type; so at the settling repayment the approval read before the
  payment is false, the outcome is OnTimeOriginal, the borrower's score rises by 10 and
  the lender's by 5, and the lender is counted a rejected modification.
\<close>

theorem scenario_S5_classified_OnTimeOriginal:
  "run [
     exec (CreateLoanOffer theLender 1000 (90 * 10 ^ 18) mockDai 1000 (10 * oneDay) 0 0),
     exec (AcceptLoanOffer theBorrower 1000 offer90 0 0),
     exec (RequestPaymentModification theBorrower agreement90 PartialPaymentAgreement (30 * 10 ^ 18)),
     exec (RespondToPaymentModification theLender (1000 + oneDay) agreement90 True)] world0
     = Inr worldPartialAgreed
   \<and> status (agreementOf worldPartialAgreed agreement90) = Active_PartialPaymentAgreed
   \<and> repayLoan theBorrower (1000 + 2 * oneDay) agreement90 (30 * 10 ^ 18) worldPartialAgreed
        = Inr worldPartialPaid
   \<and> status (agreementOf worldPartialPaid agreement90) = Active
   \<and> \<not> modificationApprovedByLender (agreementOf worldPartialPaid agreement90)
   \<and> requestedModificationValue (agreementOf worldPartialPaid agreement90) = 0
   \<and> requestedModificationType (agreementOf worldPartialPaid agreement90) = PartialPaymentAgreement
   \<and> total_due (agreementOf worldPartialPaid agreement90)
        - amountPaid (agreementOf worldPartialPaid agreement90) = 69 * 10 ^ 18
   \<and> 1000 + 5 * oneDay \<le> dueDate (agreementOf worldPartialPaid agreement90)
   \<and> repayLoan theBorrower (1000 + 5 * oneDay) agreement90 (69 * 10 ^ 18) worldPartialPaid
        = Inr worldS5Settled
   \<and> status (agreementOf worldS5Settled agreement90) = Repaid
   \<and> classifyOutcome (1000 + 5 * oneDay) (dueDate (agreementOf worldPartialPaid agreement90))
        (requestedModificationType (agreementOf worldPartialPaid agreement90))
        (modificationApprovedByLender (agreementOf worldPartialPaid agreement90)) = OnTimeOriginal
   \<and> currentReputationScore (profileOf worldS5Settled theBorrower)
        = currentReputationScore (profileOf worldPartialPaid theBorrower) + 10
   \<and> currentReputationScore (profileOf worldS5Settled theLender)
        = currentReputationScore (profileOf worldPartialPaid theLender) + 5
   \<and> modificationsRejectedByLender (profileOf worldS5Settled theLender)
        = modificationsRejectedByLender (profileOf worldPartialPaid theLender) + 1
   \<and> modificationsApprovedByLender (profileOf worldS5Settled theLender)
        = modificationsApprovedByLender (profileOf worldPartialPaid theLender)"
  by (simp add: worldPartialAgreed_def worldPartialPaid_def worldS5Settled_def offer90_def agreement90_def
      total_due_def scenario_defs contract_defs)

text \<open>
  C3. The claim: for a loan repaid in full on which the borrower never requested a
  modification, \<open>recordLoanPaymentOutcome\<close> leaves the lender's
  \<open>modificationsRejectedByLender\<close> and \<open>modificationsApprovedByLender\<close> unchanged, because
  the agreement's modification type is None.

  The code: \<open>acceptLoanOffer\<close> and \<open>fundLoanRequest\<close> create the agreement with
  \<open>requestedModificationType = DueDateExtension\<close> and no approval, so the settling
  repayment of a never-modified loan passes (DueDateExtension, false) to Reputation, which
  increments \<open>modificationsRejectedByLender\<close>.
\<close>

theorem unmodified_loan_counts_rejection:
  "run formAgreement100 world0 = Inr worldFormed
   \<and> requestedModificationType (agreementOf worldFormed agreement100) = DueDateExtension
   \<and> \<not> modificationApprovedByLender (agreementOf worldFormed agreement100)
   \<and> repayLoan theBorrower (1000 + 6 * oneDay) agreement100 (110 * 10 ^ 18) worldFormed = Inr worldRepaid
   \<and> status (agreementOf worldRepaid agreement100) = Repaid
   \<and> modificationsRejectedByLender (profileOf worldRepaid theLender)
        = modificationsRejectedByLender (profileOf worldFormed theLender) + 1
   \<and> modificationsApprovedByLender (profileOf worldRepaid theLender)
        = modificationsApprovedByLender (profileOf worldFormed theLender)"
  by (simp add: worldFormed_def worldRepaid_def scenario_defs contract_defs)

text \<open>
  C4. The claim: the snapshot returned by \<open>getActiveVouchesForBorrower\<close> lists each
  (voucher, borrower) pair at most once, so one \<open>handleP2PDefault\<close> slashes a voucher's
  vouch at most once, also when the voucher removed a vouch for the borrower and vouched
  again.

  The code: the snapshot has one entry for every entry of the borrower's received
  history whose pair is active now. After vouch, removal and second vouch the history
  has two entries for the pair and the snapshot lists the vouch twice; one default
  slashes it twice (stake 50 to 40 tokens, score \<open>- 40\<close>, two defaults counted).
\<close>

theorem revouch_listed_twice_slashed_twice:
  "run (formAgreement100 @ [
       addVouch theVoucher theBorrower (50 * 10 ^ 18) mockDai,
       removeVouch theVoucher theBorrower,
       addVouch theVoucher theBorrower (50 * 10 ^ 18) mockDai]) world0 = Inr worldRevouched
   \<and> userVouchesReceived (reputation worldRevouched) theBorrower = [vouch50, vouch50]
   \<and> vouchOf worldRevouched theVoucher theBorrower = vouch50
   \<and> getActiveVouchesForBorrower worldRevouched theBorrower = [vouch50, vouch50]
   \<and> handleP2PDefault theLender (1000 + 8 * oneDay) agreement100 worldRevouched = Inr worldRevouchedDefaulted
   \<and> status (agreementOf worldRevouchedDefaulted agreement100) = Defaulted
   \<and> stakedAmount (vouchOf worldRevouchedDefaulted theVoucher theBorrower) = 40 * 10 ^ 18
   \<and> timesDefaultedAsVoucher (profileOf worldRevouchedDefaulted theVoucher) = 2
   \<and> currentReputationScore (profileOf worldRevouchedDefaulted theVoucher) = - 40"
  by (simp add: worldRevouched_def worldRevouchedDefaulted_def vouch50_def scenario_defs contract_defs)

text \<open>
  C5. The payment-outcome classification applied at the settling repayment is the
  first matching rule of the spec's table, as a function of the time of the repayment,
  the due date, and the modification type and approval read before the repayment. For
  every reachable state and every \<open>repayLoan\<close> that leaves the agreement Repaid, the
  outcome the code computes equals \<open>firstMatchingRule\<close> on these four inputs, and it is
  the outcome handed to \<open>recordLoanPaymentOutcome\<close>. (The two functions differ only at an
  approval with type None paid on time, see \<open>classify_differs\<close>; by \<open>reachable_inv\<close> no
  repayable agreement is in that state.)
\<close>

theorem settling_outcome_first_matching_rule:
  assumes "reachable w"
    and "repayLoan sender now i pay w = Inr w'"
    and "status (agreementOf w' i) = Repaid"
  shows "classifyOutcome now (dueDate (agreementOf w i)) (requestedModificationType (agreementOf w i))
             (modificationApprovedByLender (agreementOf w i))
           = firstMatchingRule now (dueDate (agreementOf w i)) (requestedModificationType (agreementOf w i))
               (modificationApprovedByLender (agreementOf w i))
       \<and> (reputationContract (p2pLending w) \<noteq> 0 \<longrightarrow>
            (\<exists>w3 w4. recordLoanPaymentOutcome (p2pLendingAddr w3) i
                (LoanAgreement.borrower (agreementOf w i)) (LoanAgreement.lender (agreementOf w i))
                (principalAmount (agreementOf w i))
                (firstMatchingRule now (dueDate (agreementOf w i)) (requestedModificationType (agreementOf w i))
                   (modificationApprovedByLender (agreementOf w i)))
                (requestedModificationType (agreementOf w i))
                (modificationApprovedByLender (agreementOf w i)) w3 = Inr w4
              \<and> w' = setAgreement i (\<lambda>a. a\<lparr>status := Repaid\<rparr>) w4))"
proof -
  let ?a = "agreementOf w i"
  from repayLoan_shape [OF assms(2)] have st: "status ?a \<in> {Active, Overdue, Active_PartialPaymentAgreed}"
    by blast
  from reachable_inv [OF assms(1), of i] st
  have "\<not> (modificationApprovedByLender ?a \<and> requestedModificationType ?a = NoModification)"
    by (auto simp: agreement_inv_def)
  then have eq: "classifyOutcome now (dueDate ?a) (requestedModificationType ?a) (modificationApprovedByLender ?a)
      = firstMatchingRule now (dueDate ?a) (requestedModificationType ?a) (modificationApprovedByLender ?a)"
    by (rule classify_agrees)
  show ?thesis
  proof (intro conjI impI)
    show "classifyOutcome now (dueDate ?a) (requestedModificationType ?a) (modificationApprovedByLender ?a)
      = firstMatchingRule now (dueDate ?a) (requestedModificationType ?a) (modificationApprovedByLender ?a)"
      by (rule eq)
  next
    assume rc: "reputationContract (p2pLending w) \<noteq> 0"
    from repayLoan_settles [OF assms(2) assms(3) rc] eq
    show "\<exists>w3 w4. recordLoanPaymentOutcome (p2pLendingAddr w3) i
                (LoanAgreement.borrower ?a) (LoanAgreement.lender ?a) (principalAmount ?a)
                (firstMatchingRule now (dueDate ?a) (requestedModificationType ?a)
                   (modificationApprovedByLender ?a))
                (requestedModificationType ?a) (modificationApprovedByLender ?a) w3 = Inr w4
              \<and> w' = setAgreement i (\<lambda>a. a\<lparr>status := Repaid\<rparr>) w4"
      by simp
  qed
qed

text \<open>Scenario S3 is such a repayment: the outcome is OnTimeExtended.\<close>

theorem settling_outcome_first_matching_rule_witness:
  "reachable worldExtensionApproved
   \<and> repayLoan theBorrower (1000 + 13 * oneDay) agreement70 (77 * 10 ^ 18) worldExtensionApproved
        = Inr worldExtensionRepaid
   \<and> status (agreementOf worldExtensionRepaid agreement70) = Repaid
   \<and> reputationContract (p2pLending worldExtensionApproved) \<noteq> 0
   \<and> classifyOutcome (1000 + 13 * oneDay) (1000 + 14 * oneDay) DueDateExtension True
        = firstMatchingRule (1000 + 13 * oneDay) (1000 + 14 * oneDay) DueDateExtension True
   \<and> firstMatchingRule (1000 + 13 * oneDay) (1000 + 14 * oneDay) DueDateExtension True = OnTimeExtended
   \<and> (\<exists>w3 w4. recordLoanPaymentOutcome (p2pLendingAddr w3) agreement70 theBorrower theLender
          (70 * 10 ^ 18) OnTimeExtended DueDateExtension True w3 = Inr w4
        \<and> worldExtensionRepaid = setAgreement agreement70 (\<lambda>a. a\<lparr>status := Repaid\<rparr>) w4)"
proof -
  note r = worldExtensionRepaid_run
  from r have rp: "repayLoan theBorrower (1000 + 13 * oneDay) agreement70 (77 * 10 ^ 18) worldExtensionApproved
        = Inr worldExtensionRepaid" by blast
  from r have st: "status (agreementOf worldExtensionRepaid agreement70) = Repaid" by blast
  from r have rc: "reputationContract (p2pLending worldExtensionApproved) \<noteq> 0"
    by (simp add: reputationAt_def)
  have fm: "firstMatchingRule (1000 + 13 * oneDay) (1000 + 14 * oneDay) DueDateExtension True = OnTimeExtended"
    by (simp add: firstMatchingRule_def oneDay_def)
  note t = settling_outcome_first_matching_rule [OF reachable_worldExtensionApproved rp st]
  from t r have eq: "classifyOutcome (1000 + 13 * oneDay) (1000 + 14 * oneDay) DueDateExtension True
        = firstMatchingRule (1000 + 13 * oneDay) (1000 + 14 * oneDay) DueDateExtension True"
    by simp
  from t rc have "\<exists>w3 w4. recordLoanPaymentOutcome (p2pLendingAddr w3) agreement70
          (LoanAgreement.borrower (agreementOf worldExtensionApproved agreement70))
          (LoanAgreement.lender (agreementOf worldExtensionApproved agreement70))
          (principalAmount (agreementOf worldExtensionApproved agreement70))
          (firstMatchingRule (1000 + 13 * oneDay) (dueDate (agreementOf worldExtensionApproved agreement70))
             (requestedModificationType (agreementOf worldExtensionApproved agreement70))
             (modificationApprovedByLender (agreementOf worldExtensionApproved agreement70)))
          (requestedModificationType (agreementOf worldExtensionApproved agreement70))
          (modificationApprovedByLender (agreementOf worldExtensionApproved agreement70)) w3 = Inr w4
        \<and> worldExtensionRepaid = setAgreement agreement70 (\<lambda>a. a\<lparr>status := Repaid\<rparr>) w4"
    by blast
  with r fm have ex: "\<exists>w3 w4. recordLoanPaymentOutcome (p2pLendingAddr w3) agreement70 theBorrower theLender
          (70 * 10 ^ 18) OnTimeExtended DueDateExtension True w3 = Inr w4
        \<and> worldExtensionRepaid = setAgreement agreement70 (\<lambda>a. a\<lparr>status := Repaid\<rparr>) w4"
    by simp
  from reachable_worldExtensionApproved rp st rc eq fm ex show ?thesis by blast
qed

text \<open>
  C6. The claim: when \<open>handleP2PDefault\<close> runs, for every active vouch with stake
  \<open>s > 0\<close> the amount slashed is exactly \<open>min(s, max(1, s * 1000 / 10_000))\<close>; that amount
  is deducted from the vouch's stake and from the voucher's \<open>vouchingStakeAmount\<close> and
  paid to the lender, the voucher's score decreases by 20 and
  \<open>timesDefaultedAsVoucher\<close> increases by 1.

  The code: each call of \<open>slashVouchAndReputation\<close> does that for the amount the loop
  computes (\<open>slashAmountFor_spec\<close>, \<open>slashVouchAndReputation_effect\<close>,
  \<open>single_vouch_slashed_once\<close>), but the loop calls it once per snapshot entry. For the voucher who vouched again (C4) the vouch of 50 tokens
  loses twice the formula's amount, the lender receives twice the amount, the score
  decreases by 40 and two defaults are counted.
\<close>

theorem revouch_slash_amounts:
  "getActiveVouchesForBorrower worldRevouched theBorrower = [vouch50, vouch50]
   \<and> stakedAmount (vouchOf worldRevouched theVoucher theBorrower) = 50 * 10 ^ 18
   \<and> slashAmountFor (50 * 10 ^ 18) = Inr (slash_amount (50 * 10 ^ 18))
   \<and> slash_amount (50 * 10 ^ 18) = 5 * 10 ^ 18
   \<and> handleP2PDefault theLender (1000 + 8 * oneDay) agreement100 worldRevouched = Inr worldRevouchedDefaulted
   \<and> stakedAmount (vouchOf worldRevouchedDefaulted theVoucher theBorrower)
        = stakedAmount (vouchOf worldRevouched theVoucher theBorrower) - 2 * slash_amount (50 * 10 ^ 18)
   \<and> vouchingStakeAmount (profileOf worldRevouchedDefaulted theVoucher)
        = vouchingStakeAmount (profileOf worldRevouched theVoucher) - 2 * slash_amount (50 * 10 ^ 18)
   \<and> balanceOf (erc20 worldRevouchedDefaulted mockDai) theLender
        = balanceOf (erc20 worldRevouched mockDai) theLender + 2 * slash_amount (50 * 10 ^ 18)
   \<and> currentReputationScore (profileOf worldRevouchedDefaulted theVoucher)
        = currentReputationScore (profileOf worldRevouched theVoucher) - 40
   \<and> timesDefaultedAsVoucher (profileOf worldRevouchedDefaulted theVoucher)
        = timesDefaultedAsVoucher (profileOf worldRevouched theVoucher) + 2"
  by (simp add: worldRevouched_def worldRevouchedDefaulted_def vouch50_def slash_amount_def
      scenario_defs contract_defs)

text \<open>
  C7. For every loan agreement in every reachable state \<open>amountPaid \<le> total_due\<close>,
  where \<open>total_due = principal + principal * rate_bps / 10_000\<close> with truncating division
  (and \<open>_calculateTotalDue\<close> returns this number whenever it returns); \<open>repayLoan\<close> rejects
  a payment that is zero or exceeds \<open>total_due - amountPaid\<close>, an accepted payment is
  added to \<open>amountPaid\<close>, and no other call increases \<open>amountPaid\<close>.
\<close>

theorem amountPaid_le_total_due:
  "(reachable w \<longrightarrow> amountPaid (agreementOf w i) \<le> total_due (agreementOf w i))
   \<and> (calculateTotalDue (agreementOf w i) = Inr td \<longrightarrow> td = total_due (agreementOf w i))
   \<and> (pay = 0 \<or> total_due (agreementOf w i) - amountPaid (agreementOf w i) < pay
        \<longrightarrow> (\<exists>e. repayLoan sender now i pay w = Inl e))
   \<and> (repayLoan sender now i pay w = Inr w'
        \<longrightarrow> amountPaid (agreementOf w' i) = amountPaid (agreementOf w i) + pay
          \<and> amountPaid (agreementOf w' i) \<le> total_due (agreementOf w' i))
   \<and> (exec c w = Inr w' \<and> \<not> isRepay c
        \<longrightarrow> amountPaid (agreementOf w' i) \<le> amountPaid (agreementOf w i))"
proof (intro conjI impI)
  assume "reachable w"
  from reachable_inv [OF this, of i] show "amountPaid (agreementOf w i) \<le> total_due (agreementOf w i)"
    by (simp add: agreement_inv_def)
next
  assume "calculateTotalDue (agreementOf w i) = Inr td"
  then show "td = total_due (agreementOf w i)" by (rule calculateTotalDue_total_due)
next
  assume "pay = 0 \<or> total_due (agreementOf w i) - amountPaid (agreementOf w i) < pay"
  then show "\<exists>e. repayLoan sender now i pay w = Inl e" by (rule repayLoan_rejects)
next
  assume r: "repayLoan sender now i pay w = Inr w'"
  from repayLoan_shape [OF r]
  show "amountPaid (agreementOf w' i) = amountPaid (agreementOf w i) + pay" by auto
  from repayLoan_shape [OF r]
  show "amountPaid (agreementOf w' i) \<le> total_due (agreementOf w' i)" by auto
next
  assume "exec c w = Inr w' \<and> \<not> isRepay c"
  then show "amountPaid (agreementOf w' i) \<le> amountPaid (agreementOf w i)"
    using exec_amountPaid by blast
qed

text \<open>The overdue 100-token agreement: 55 of 110 tokens paid.\<close>

theorem amountPaid_le_total_due_witness:
  "reachable worldOverdue
   \<and> repayLoan theBorrower (1000 + 8 * oneDay) agreement100 (55 * 10 ^ 18) worldFormed = Inr worldOverdue
   \<and> amountPaid (agreementOf worldOverdue agreement100) = 55 * 10 ^ 18
   \<and> calculateTotalDue (agreementOf worldOverdue agreement100) = Inr (110 * 10 ^ 18)
   \<and> total_due (agreementOf worldOverdue agreement100) = 110 * 10 ^ 18
   \<and> amountPaid (agreementOf worldOverdue agreement100) \<le> total_due (agreementOf worldOverdue agreement100)
   \<and> (\<exists>e. repayLoan theBorrower (1000 + 9 * oneDay) agreement100 0 worldOverdue = Inl e)
   \<and> (\<exists>e. repayLoan theBorrower (1000 + 9 * oneDay) agreement100 (55 * 10 ^ 18 + 1) worldOverdue = Inl e)
   \<and> amountPaid (agreementOf worldOverduePending agreement100)
        \<le> amountPaid (agreementOf worldOverdue agreement100)"
proof -
  note f = worldOverdue_facts
  note t = amountPaid_le_total_due
  from f have ctd: "calculateTotalDue (agreementOf worldOverdue agreement100) = Inr (110 * 10 ^ 18)"
    by blast
  from t [where w = worldOverdue and i = agreement100 and td = "110 * 10 ^ 18"] ctd
  have td: "total_due (agreementOf worldOverdue agreement100) = 110 * 10 ^ 18" by simp
  from worldOverdue_step
  have rp: "repayLoan theBorrower (1000 + 8 * oneDay) agreement100 (55 * 10 ^ 18) worldFormed = Inr worldOverdue"
    and z: "amountPaid (agreementOf worldFormed agreement100) = 0" by blast+
  from t [where w = worldFormed and i = agreement100 and w' = worldOverdue and sender = theBorrower
      and now = "1000 + 8 * oneDay" and pay = "55 * 10 ^ 18"] rp z
  have paid: "amountPaid (agreementOf worldOverdue agreement100) = 55 * 10 ^ 18" by simp
  from t [where w = worldOverdue and i = agreement100] reachable_worldOverdue
  have a: "amountPaid (agreementOf worldOverdue agreement100) \<le> total_due (agreementOf worldOverdue agreement100)"
    by blast
  from t [where w = worldOverdue and i = agreement100 and pay = 0 and sender = theBorrower
      and now = "1000 + 9 * oneDay"]
  have b: "\<exists>e. repayLoan theBorrower (1000 + 9 * oneDay) agreement100 0 worldOverdue = Inl e"
    by blast
  from td paid
  have "total_due (agreementOf worldOverdue agreement100) - amountPaid (agreementOf worldOverdue agreement100)
      < 55 * 10 ^ 18 + 1" by simp
  with t [where w = worldOverdue and i = agreement100 and pay = "55 * 10 ^ 18 + 1" and sender = theBorrower
      and now = "1000 + 9 * oneDay"]
  have c: "\<exists>e. repayLoan theBorrower (1000 + 9 * oneDay) agreement100 (55 * 10 ^ 18 + 1) worldOverdue = Inl e"
    by blast
  have "\<not> isRepay (RequestPaymentModification theBorrower agreement100 DueDateExtension (1000 + 14 * oneDay))"
    by simp
  with t [where w = worldOverdue and i = agreement100 and w' = worldOverduePending
      and c = "RequestPaymentModification theBorrower agreement100 DueDateExtension (1000 + 14 * oneDay)"]
    worldOverduePending_run
  have d: "amountPaid (agreementOf worldOverduePending agreement100)
        \<le> amountPaid (agreementOf worldOverdue agreement100)"
    by blast
  from reachable_worldOverdue rp paid ctd td a b c d show ?thesis by blast
qed

text \<open>
  C8. Each of \<open>recordLoanPaymentOutcome\<close>, \<open>updateReputationOnLoanDefault\<close> (the spec's
  \<open>record_loan_default\<close>) and \<open>slashVouchAndReputation\<close>, called by anyone but the
  configured \<open>p2pLendingContractAddress\<close>, reverts with "Reputation: Caller is not
  P2PLending contract" and leaves the whole state (scores, counters, vouches, escrowed
  stake) unchanged.
\<close>

theorem authority_gating:
  assumes "sender \<noteq> p2pLendingContractAddress (reputation w)"
  shows "recordLoanPaymentOutcome sender i b l p oc mt ap w
           = Inl (Revert ''Reputation: Caller is not P2PLending contract'')
       \<and> commit (recordLoanPaymentOutcome sender i b l p oc mt ap) w = w
       \<and> updateReputationOnLoanDefault sender b w
           = Inl (Revert ''Reputation: Caller is not P2PLending contract'')
       \<and> commit (updateReputationOnLoanDefault sender b) w = w
       \<and> slashVouchAndReputation sender v b n l w
           = Inl (Revert ''Reputation: Caller is not P2PLending contract'')
       \<and> commit (slashVouchAndReputation sender v b n l) w = w"
  using assms
  by (simp add: recordLoanPaymentOutcome_def updateReputationOnLoanDefault_def
      slashVouchAndReputation_def commit_def del: run.simps)

text \<open>The borrower calls the three functions while a vouch for him is active.\<close>

theorem authority_gating_witness:
  "theBorrower \<noteq> p2pLendingContractAddress (reputation worldVouched)
   \<and> Vouch.isActive (vouchOf worldVouched theVoucher theBorrower)
   \<and> recordLoanPaymentOutcome theBorrower agreement100 theBorrower theLender (100 * 10 ^ 18)
        OnTimeOriginal NoModification False worldVouched
        = Inl (Revert ''Reputation: Caller is not P2PLending contract'')
   \<and> updateReputationOnLoanDefault theBorrower theLender worldVouched
        = Inl (Revert ''Reputation: Caller is not P2PLending contract'')
   \<and> slashVouchAndReputation theBorrower theVoucher theBorrower (5 * 10 ^ 18) theBorrower worldVouched
        = Inl (Revert ''Reputation: Caller is not P2PLending contract'')
   \<and> commit (slashVouchAndReputation theBorrower theVoucher theBorrower (5 * 10 ^ 18) theBorrower)
        worldVouched = worldVouched"
proof -
  have h: "theBorrower \<noteq> p2pLendingContractAddress (reputation worldVouched)
    \<and> Vouch.isActive (vouchOf worldVouched theVoucher theBorrower)"
    by (simp add: worldVouched_def scenario_defs contract_defs)
  then have h1: "theBorrower \<noteq> p2pLendingContractAddress (reputation worldVouched)" by blast
  from authority_gating [OF h1, of agreement100 theBorrower theLender "100 * 10 ^ 18"
      OnTimeOriginal NoModification False theVoucher "5 * 10 ^ 18"]
    authority_gating [OF h1, of agreement100 theLender theBorrower "100 * 10 ^ 18"
      OnTimeOriginal NoModification False theVoucher "5 * 10 ^ 18"]
    authority_gating [OF h1, of agreement100 theBorrower theBorrower "100 * 10 ^ 18"
      OnTimeOriginal NoModification False theVoucher "5 * 10 ^ 18"]
    h
  show ?thesis by blast
qed

text \<open>
  C9. An approved DueDateExtension strictly increases the due date:
  \<open>requestPaymentModification\<close> with type DueDateExtension reverts unless the value is
  greater than the current due date; while the request is pending no call but the
  response (and the forming of an agreement under this identifier) changes the
  agreement; \<open>respondToPaymentModification(true)\<close> sets the due date to exactly the
  requested value; so in every reachable state the due date after an approved extension
  is strictly greater than before.
\<close>

theorem approved_extension_increases_dueDate:
  "(v \<le> dueDate (agreementOf w i) \<longrightarrow>
      (\<exists>e. requestPaymentModification sender i DueDateExtension v w = Inl e))
   \<and> (requestPaymentModification sender i DueDateExtension v w = Inr w' \<longrightarrow>
        dueDate (agreementOf w i) < v
        \<and> status (agreementOf w' i) = PendingModificationApproval
        \<and> requestedModificationType (agreementOf w' i) = DueDateExtension
        \<and> requestedModificationValue (agreementOf w' i) = v
        \<and> dueDate (agreementOf w' i) = dueDate (agreementOf w i))
   \<and> (exec c w = Inr w' \<and> status (agreementOf w i) = PendingModificationApproval
        \<and> \<not> respondsTo i c \<longrightarrow>
        agreementOf w' i = agreementOf w i
        \<or> formsAgreement c \<and> status (agreementOf w' i) = Active)
   \<and> (respondToPaymentModification sender now i True w = Inr w'
        \<and> requestedModificationType (agreementOf w i) = DueDateExtension \<longrightarrow>
        dueDate (agreementOf w' i) = requestedModificationValue (agreementOf w i))
   \<and> (reachable w \<and> respondToPaymentModification sender now i True w = Inr w'
        \<and> requestedModificationType (agreementOf w i) = DueDateExtension \<longrightarrow>
        dueDate (agreementOf w i) < dueDate (agreementOf w' i))"
proof (intro conjI impI)
  assume le: "v \<le> dueDate (agreementOf w i)"
  show "\<exists>e. requestPaymentModification sender i DueDateExtension v w = Inl e"
  proof (cases "requestPaymentModification sender i DueDateExtension v w")
    case (Inl e)
    then show ?thesis by simp
  next
    case (Inr w1)
    from requestPaymentModification_shape [OF Inr] le show ?thesis by simp
  qed
next
  assume r: "requestPaymentModification sender i DueDateExtension v w = Inr w'"
  from requestPaymentModification_shape [OF r]
  show "dueDate (agreementOf w i) < v"
    "status (agreementOf w' i) = PendingModificationApproval"
    "requestedModificationType (agreementOf w' i) = DueDateExtension"
    "requestedModificationValue (agreementOf w' i) = v"
    "dueDate (agreementOf w' i) = dueDate (agreementOf w i)"
    by simp_all
next
  assume "exec c w = Inr w' \<and> status (agreementOf w i) = PendingModificationApproval
        \<and> \<not> respondsTo i c"
  then show "agreementOf w' i = agreementOf w i
      \<or> formsAgreement c \<and> status (agreementOf w' i) = Active"
    using exec_pending_unchanged by blast
next
  assume "respondToPaymentModification sender now i True w = Inr w'
        \<and> requestedModificationType (agreementOf w i) = DueDateExtension"
  then have r: "respondToPaymentModification sender now i True w = Inr w'"
    and ty: "requestedModificationType (agreementOf w i) = DueDateExtension" by blast+
  from respondToPaymentModification_shape [OF r] ty
  show "dueDate (agreementOf w' i) = requestedModificationValue (agreementOf w i)" by simp
next
  assume "reachable w \<and> respondToPaymentModification sender now i True w = Inr w'
        \<and> requestedModificationType (agreementOf w i) = DueDateExtension"
  then have re: "reachable w" and r: "respondToPaymentModification sender now i True w = Inr w'"
    and ty: "requestedModificationType (agreementOf w i) = DueDateExtension" by blast+
  from respondToPaymentModification_shape [OF r]
  have st: "status (agreementOf w i) = PendingModificationApproval"
    and dd: "dueDate (agreementOf w' i) = requestedModificationValue (agreementOf w i)"
    using ty by simp_all
  from reachable_inv [OF re, of i] st ty
  have "dueDate (agreementOf w i) < requestedModificationValue (agreementOf w i)"
    by (simp add: agreement_inv_def)
  with dd show "dueDate (agreementOf w i) < dueDate (agreementOf w' i)" by simp
qed

text \<open>Scenario S3: the due date moves from day 7 to day 14.\<close>

theorem approved_extension_increases_dueDate_witness:
  "reachable worldExtensionRequested
   \<and> dueDate (agreementOf worldExtensionRequested agreement70) = 1000 + 7 * oneDay
   \<and> status (agreementOf worldExtensionRequested agreement70) = PendingModificationApproval
   \<and> requestedModificationType (agreementOf worldExtensionRequested agreement70) = DueDateExtension
   \<and> requestedModificationValue (agreementOf worldExtensionRequested agreement70) = 1000 + 14 * oneDay
   \<and> agreementOf worldExtensionRequestedMore agreement70 = agreementOf worldExtensionRequested agreement70
   \<and> respondToPaymentModification theLender (1000 + 6 * oneDay) agreement70 True worldExtensionRequested
        = Inr worldExtensionApproved
   \<and> dueDate (agreementOf worldExtensionApproved agreement70) = 1000 + 14 * oneDay
   \<and> dueDate (agreementOf worldExtensionRequested agreement70)
        < dueDate (agreementOf worldExtensionApproved agreement70)
   \<and> (\<exists>e. requestPaymentModification theBorrower agreement70 DueDateExtension (1000 + 14 * oneDay)
          worldExtensionApproved = Inl e)"
proof -
  note f = extension_facts
  note t = approved_extension_increases_dueDate
  from f have ty: "requestedModificationType (agreementOf worldExtensionRequested agreement70) = DueDateExtension"
    and st: "status (agreementOf worldExtensionRequested agreement70) = PendingModificationApproval"
    by blast+
  from t [where w' = worldExtensionRequested and i = agreement70 and sender = theBorrower
      and v = "1000 + 14 * oneDay"] worldExtensionRequested_step
  have rq: "requestedModificationValue (agreementOf worldExtensionRequested agreement70) = 1000 + 14 * oneDay"
    by blast
  have "\<not> respondsTo agreement70
      (CreateLoanRequest theBorrower (1000 + 6 * oneDay) (10 * 10 ^ 18) mockDai 500 oneDay 0 0)"
    "\<not> formsAgreement
      (CreateLoanRequest theBorrower (1000 + 6 * oneDay) (10 * 10 ^ 18) mockDai 500 oneDay 0 0)"
    by simp_all
  with t [where w = worldExtensionRequested and i = agreement70 and w' = worldExtensionRequestedMore
      and c = "CreateLoanRequest theBorrower (1000 + 6 * oneDay) (10 * 10 ^ 18) mockDai 500 oneDay 0 0"]
    worldExtensionRequestedMore_run st
  have same: "agreementOf worldExtensionRequestedMore agreement70
      = agreementOf worldExtensionRequested agreement70"
    by blast
  from t [where w = worldExtensionRequested and i = agreement70
      and w' = worldExtensionApproved and sender = theLender and now = "1000 + 6 * oneDay"]
    reachable_worldExtensionRequested worldExtensionApproved_run ty
  have lt: "dueDate (agreementOf worldExtensionRequested agreement70)
        < dueDate (agreementOf worldExtensionApproved agreement70)"
    and ex: "dueDate (agreementOf worldExtensionApproved agreement70)
        = requestedModificationValue (agreementOf worldExtensionRequested agreement70)"
    by blast+
  from f have "1000 + 14 * oneDay \<le> dueDate (agreementOf worldExtensionApproved agreement70)" by simp
  with t [where v = "1000 + 14 * oneDay"
        and w = worldExtensionApproved and i = agreement70 and sender = theBorrower]
  have rej: "\<exists>e. requestPaymentModification theBorrower agreement70 DueDateExtension (1000 + 14 * oneDay)
          worldExtensionApproved = Inl e"
    by blast
  from ex rq have d14: "dueDate (agreementOf worldExtensionApproved agreement70) = 1000 + 14 * oneDay"
    by simp
  from f have d7: "dueDate (agreementOf worldExtensionRequested agreement70) = 1000 + 7 * oneDay" by blast
  from reachable_worldExtensionRequested d7 st ty rq same worldExtensionApproved_run d14 lt rej
  show ?thesis by blast
qed

text \<open>
  C10. \<open>registerUser\<close> reverts with "Address already registered" whenever the caller is
  registered (the check comes first; the flag, once true, stays true under
  \<open>registerUser\<close> and \<open>updateProfile\<close>); it reverts whenever the name is empty or longer
  than 50 bytes, with "Name cannot be empty" or "Name too long" for a caller not yet
  registered; and when it succeeds it records the name and the timestamp, appends the
  caller to \<open>registeredUsers\<close> and increments \<open>totalUsers\<close>.
\<close>

theorem registerUser_spec:
  "(isRegistered (userProfiles reg sender) \<longrightarrow>
      registerUser sender now nm reg = Inl (Revert ''UserRegistry: Address already registered''))
   \<and> (nm = [] \<or> 50 < length nm \<longrightarrow> (\<exists>e. registerUser sender now nm reg = Inl e))
   \<and> (\<not> isRegistered (userProfiles reg sender) \<and> nm = [] \<longrightarrow>
        registerUser sender now nm reg = Inl (Revert ''UserRegistry: Name cannot be empty''))
   \<and> (\<not> isRegistered (userProfiles reg sender) \<and> 50 < length nm \<longrightarrow>
        registerUser sender now nm reg = Inl (Revert ''UserRegistry: Name too long''))
   \<and> (\<not> isRegistered (userProfiles reg sender) \<and> 0 < length nm \<and> length nm \<le> 50
        \<and> totalUsers reg < MAX_UINT256 \<longrightarrow>
        registerUser sender now nm reg = Inr (reg\<lparr>
          userProfiles := (userProfiles reg)(sender :=
            \<lparr>isRegistered = True, name = nm, registrationTime = now\<rparr>),
          registeredUsers := registeredUsers reg @ [sender],
          totalUsers := totalUsers reg + 1\<rparr>))
   \<and> (registerUser sender now nm reg = Inr reg' \<longrightarrow>
        \<not> isRegistered (userProfiles reg sender)
        \<and> userProfiles reg' sender = \<lparr>isRegistered = True, name = nm, registrationTime = now\<rparr>
        \<and> registeredUsers reg' = registeredUsers reg @ [sender]
        \<and> totalUsers reg' = totalUsers reg + 1
        \<and> (\<forall>a. a \<noteq> sender \<longrightarrow> userProfiles reg' a = userProfiles reg a))
   \<and> (isRegistered (userProfiles reg a)
        \<and> (registerUser sender now nm reg = Inr reg' \<or> updateProfile sender nm reg = Inr reg') \<longrightarrow>
        isRegistered (userProfiles reg' a))"
  by (auto simp: registerUser_def updateProfile_def split: if_splits)

text \<open>One registration into the empty registry, and the rejected calls after it.\<close>

theorem registerUser_spec_witness:
  "registerUser theBorrower 7 ''Alice'' emptyRegistry = Inr registryAlice
   \<and> registrationTime (userProfiles registryAlice theBorrower) = 7
   \<and> registeredUsers registryAlice = [theBorrower]
   \<and> totalUsers registryAlice = 1
   \<and> registerUser theBorrower 8 ''Alice again'' registryAlice
        = Inl (Revert ''UserRegistry: Address already registered'')
   \<and> registerUser theLender 8 [] registryAlice = Inl (Revert ''UserRegistry: Name cannot be empty'')
   \<and> registerUser theLender 8 (replicate 51 CHR ''x'') registryAlice
        = Inl (Revert ''UserRegistry: Name too long'')
   \<and> updateProfile theBorrower ''Alicia'' registryAlice
        = Inr (registryAlice\<lparr>userProfiles := (userProfiles registryAlice)(theBorrower :=
            (userProfiles registryAlice theBorrower)\<lparr>name := ''Alicia''\<rparr>)\<rparr>)
   \<and> isRegistered (userProfiles (registryAlice\<lparr>userProfiles := (userProfiles registryAlice)(theBorrower :=
            (userProfiles registryAlice theBorrower)\<lparr>name := ''Alicia''\<rparr>)\<rparr>) theBorrower)"
proof -
  have pre: "\<not> isRegistered (userProfiles emptyRegistry theBorrower) \<and> 0 < length ''Alice''
      \<and> length ''Alice'' \<le> 50 \<and> totalUsers emptyRegistry < MAX_UINT256"
    by (simp add: emptyRegistry_def MAX_UINT256_def)
  from registerUser_spec [of emptyRegistry theBorrower 7 "''Alice''"] pre
  have ok: "registerUser theBorrower 7 ''Alice'' emptyRegistry = Inr registryAlice"
    unfolding registryAlice_def by blast
  from registerUser_spec [of emptyRegistry theBorrower 7 "''Alice''" registryAlice] ok
  have eff: "registrationTime (userProfiles registryAlice theBorrower) = 7"
    "registeredUsers registryAlice = [theBorrower]" "totalUsers registryAlice = 1"
    by (simp_all add: emptyRegistry_def)
  have reg: "isRegistered (userProfiles registryAlice theBorrower)"
    and nreg: "\<not> isRegistered (userProfiles registryAlice theLender)"
    by (simp_all add: registryAlice_def emptyRegistry_def theBorrower_def theLender_def)
  from registerUser_spec [of registryAlice theBorrower 8 "''Alice again''"] reg
  have again: "registerUser theBorrower 8 ''Alice again'' registryAlice
        = Inl (Revert ''UserRegistry: Address already registered'')" by blast
  from registerUser_spec [of registryAlice theLender 8 "[]"] nreg
  have empty: "registerUser theLender 8 [] registryAlice = Inl (Revert ''UserRegistry: Name cannot be empty'')"
    by blast
  have "50 < length (replicate 51 CHR ''x'')" by simp
  with registerUser_spec [of registryAlice theLender 8 "replicate 51 CHR ''x''"] nreg
  have long: "registerUser theLender 8 (replicate 51 CHR ''x'') registryAlice
        = Inl (Revert ''UserRegistry: Name too long'')" by blast
  have upd: "updateProfile theBorrower ''Alicia'' registryAlice
        = Inr (registryAlice\<lparr>userProfiles := (userProfiles registryAlice)(theBorrower :=
            (userProfiles registryAlice theBorrower)\<lparr>name := ''Alicia''\<rparr>)\<rparr>)"
    using reg by (simp add: updateProfile_def)
  from registerUser_spec [where reg = registryAlice and sender = theBorrower and nm = "''Alicia''"
      and reg' = "registryAlice\<lparr>userProfiles := (userProfiles registryAlice)(theBorrower :=
            (userProfiles registryAlice theBorrower)\<lparr>name := ''Alicia''\<rparr>)\<rparr>" and a = theBorrower] reg upd
  have stay: "isRegistered (userProfiles (registryAlice\<lparr>userProfiles := (userProfiles registryAlice)(theBorrower :=
            (userProfiles registryAlice theBorrower)\<lparr>name := ''Alicia''\<rparr>)\<rparr>) theBorrower)"
    by blast
  from ok eff again empty long upd stay show ?thesis by blast
qed

end
